theory Spec2Isabelle
  imports Main
begin

section \<open>Text\<close>

text \<open>
  Python strings are modelled as lists of code points below 256 (\<open>string\<close>).
  \<open>str.strip()\<close> with no argument removes the characters for which \<open>str.isspace()\<close>
  holds from both ends; below 256 these are the code points 9-13, 28-32, 133 and 160.
\<close>

definition py_isspace :: "char \<Rightarrow> bool" where
  "py_isspace c = (c \<in> set [CHR 0x09, CHR 0x0A, CHR 0x0B, CHR 0x0C, CHR 0x0D,
     CHR 0x1C, CHR 0x1D, CHR 0x1E, CHR 0x1F, CHR 0x20, CHR 0x85, CHR 0xA0])"

definition py_strip :: "string \<Rightarrow> string" where
  "py_strip s = rev (dropWhile py_isspace (rev (dropWhile py_isspace s)))"

definition is_digit :: "char \<Rightarrow> bool" where
  "is_digit c = (c \<in> set ''0123456789'')"

definition digit_val :: "char \<Rightarrow> nat" where
  "digit_val c = of_char c - 48"

definition digit_char :: "nat \<Rightarrow> char" where
  "digit_char d = ''0123456789'' ! d"

text \<open>\<open>str(n)\<close> for a non-negative integer: its decimal digits.\<close>

fun str_nat :: "nat \<Rightarrow> string" where
  "str_nat n = (if n < 10 then [digit_char n] else str_nat (n div 10) @ [digit_char (n mod 10)])"

declare str_nat.simps [simp del]

text \<open>A number printed in a field of at least \<open>w\<close> digits, zero-filled on the left.\<close>

definition zero_pad :: "nat \<Rightarrow> nat \<Rightarrow> string" where
  "zero_pad w n = replicate (w - length (str_nat n)) (CHR ''0'') @ str_nat n"

definition ascii_lower :: "char \<Rightarrow> char" where
  "ascii_lower c = (let k = (of_char c :: nat) in if 65 \<le> k \<and> k \<le> 90 then char_of (k + 32) else c)"

section \<open>Exceptions\<close>

text \<open>
  Every exception the program can meet is a value. \<open>Exception msg\<close> is the plain
  \<open>Exception\<close> the parser raises itself; \<open>RequestException\<close> stands for whatever
  \<open>requests.get\<close> raises, \<open>HTTPError\<close> for \<open>raise_for_status\<close>.
\<close>

datatype exn =
    RequestException
  | HTTPError nat
  | Exception string
  | IndexError
  | ValueError
  | OverflowError
  | ZeroDivisionError
  | FileExistsError
  | IsADirectoryError

definition bind_exn :: "exn + 'a \<Rightarrow> ('a \<Rightarrow> exn + 'b) \<Rightarrow> exn + 'b" where
  "bind_exn r k = (case r of Inl e \<Rightarrow> Inl e | Inr v \<Rightarrow> k v)"

text \<open>\<open>xs[i]\<close> for a non-negative index: out of range raises \<open>IndexError\<close>.\<close>

definition py_index :: "'a list \<Rightarrow> nat \<Rightarrow> exn + 'a" where
  "py_index xs i = (if i < length xs then Inr (xs ! i) else Inl IndexError)"

section \<open>Floating-point numbers\<close>

text \<open>
  A Python \<open>float\<close> is an IEEE 754 binary64 value. A finite one is kept as its sign,
  significand \<open>m\<close> and exponent \<open>e\<close>, standing for \<open>m * 2^e\<close>, in the canonical form
  \<open>m < 2^53\<close>, \<open>-1074 \<le> e \<le> 971\<close> and \<open>2^52 \<le> m\<close> unless \<open>e = -1074\<close>.
\<close>

datatype pyfloat = Finite bool nat int | Infinite bool | NaN

fun bitlen :: "nat \<Rightarrow> nat" where
  "bitlen n = (if n = 0 then 0 else Suc (bitlen (n div 2)))"

declare bitlen.simps [simp del]

text \<open>The integer nearest to \<open>n / d\<close>, ties to the even one.\<close>

definition rne :: "nat \<Rightarrow> nat \<Rightarrow> nat" where
  "rne n d = (let q = n div d; r = n mod d in
     if 2 * r < d then q else if d < 2 * r then q + 1 else if even q then q else q + 1)"

text \<open>For \<open>n, d > 0\<close>: the \<open>k\<close> with \<open>2^k \<le> n / d < 2^(k+1)\<close>.\<close>

definition floor_log2 :: "nat \<Rightarrow> nat \<Rightarrow> int" where
  "floor_log2 n d = (let k = int (bitlen n) - int (bitlen d) in
     if (if 0 \<le> k then d * 2 ^ nat k \<le> n else d \<le> n * 2 ^ nat (- k)) then k else k - 1)"

text \<open>
  The binary64 value nearest to \<open>n / d\<close> (round to nearest, ties to even), with the given
  sign; a magnitude that rounds beyond the largest finite value becomes an infinity.
\<close>

definition round_double :: "bool \<Rightarrow> nat \<Rightarrow> nat \<Rightarrow> pyfloat" where
  "round_double neg n d =
     (if n = 0 then Finite neg 0 (- 1074)
      else let e = max (floor_log2 n d - 52) (- 1074);
               m = (if 0 \<le> e then rne n (d * 2 ^ nat e) else rne (n * 2 ^ nat (- e)) d);
               m' = (if m = 2 ^ 53 then 2 ^ 52 else m);
               e' = (if m = 2 ^ 53 then e + 1 else e)
           in if 971 < e' then Infinite neg else Finite neg m' e')"

text \<open>\<open>float(i)\<close> for an integer \<open>i\<close>.\<close>

definition float_of_int :: "int \<Rightarrow> exn + pyfloat" where
  "float_of_int i = (case round_double (i < 0) (nat \<bar>i\<bar>) 1 of
       Infinite _ \<Rightarrow> Inl OverflowError
     | x \<Rightarrow> Inr x)"

text \<open>
  \<open>float(s)\<close> for a string. Underscores may stand between two digits only; they are
  checked and removed first.
\<close>

fun drop_underscores :: "char \<Rightarrow> string \<Rightarrow> string option" where
  "drop_underscores prev [] = (if prev = CHR ''_'' then None else Some [])"
| "drop_underscores prev (c # cs) =
     (if c = CHR ''_'' then (if is_digit prev then drop_underscores c cs else None)
      else if prev = CHR ''_'' \<and> \<not> is_digit c then None
      else map_option ((#) c) (drop_underscores c cs))"

definition split_sign :: "string \<Rightarrow> bool \<times> string" where
  "split_sign s = (case s of
       [] \<Rightarrow> (False, [])
     | c # cs \<Rightarrow> if c = CHR ''-'' then (True, cs) else if c = CHR ''+'' then (False, cs) else (False, s))"

definition nat_of_digits :: "string \<Rightarrow> nat" where
  "nat_of_digits ds = foldl (\<lambda>a c. 10 * a + digit_val c) 0 ds"

text \<open>
  The exponent part: nothing, or \<open>e\<close> or \<open>E\<close>, an optional sign and at least one digit,
  up to the end of the text.
\<close>

definition parse_exponent :: "string \<Rightarrow> int option" where
  "parse_exponent s = (case s of
       [] \<Rightarrow> Some 0
     | c # cs \<Rightarrow>
         if c = CHR ''e'' \<or> c = CHR ''E'' then
           (let (neg, ds) = split_sign cs in
            if ds \<noteq> [] \<and> list_all is_digit ds
            then Some (if neg then - int (nat_of_digits ds) else int (nat_of_digits ds))
            else None)
         else None)"

text \<open>
  An unsigned decimal numeral: digits with an optional point, at least one digit, then the
  exponent part. The result \<open>(D, x)\<close> stands for \<open>D * 10^x\<close>.
\<close>

definition parse_decimal :: "string \<Rightarrow> (nat \<times> int) option" where
  "parse_decimal s =
     (let ip = takeWhile is_digit s; r1 = dropWhile is_digit s;
          has_point = (r1 \<noteq> [] \<and> hd r1 = CHR ''.'');
          fp = (if has_point then takeWhile is_digit (tl r1) else []);
          r2 = (if has_point then dropWhile is_digit (tl r1) else r1)
      in if ip = [] \<and> fp = [] then None
         else (case parse_exponent r2 of
                 None \<Rightarrow> None
               | Some x \<Rightarrow> Some (nat_of_digits (ip @ fp), x - int (length fp))))"

definition float_of_str :: "string \<Rightarrow> exn + pyfloat" where
  "float_of_str s =
     (case drop_underscores (CHR 0x00) s of
        None \<Rightarrow> Inl ValueError
      | Some u \<Rightarrow>
          (let (neg, body) = split_sign (py_strip u); low = map ascii_lower body in
           if low = ''inf'' \<or> low = ''infinity'' then Inr (Infinite neg)
           else if low = ''nan'' then Inr NaN
           else (case parse_decimal body of
                   None \<Rightarrow> Inl ValueError
                 | Some (D, x) \<Rightarrow>
                     Inr (if 0 \<le> x then round_double neg (D * 10 ^ nat x) 1
                          else round_double neg D (10 ^ nat (- x))))))"

text \<open>The argument of \<open>float(...)\<close> in the program is a string or the integer \<open>0\<close>.\<close>

datatype str_or_int = StrArg string | IntArg int

fun py_float :: "str_or_int \<Rightarrow> exn + pyfloat" where
  "py_float (StrArg s) = float_of_str s"
| "py_float (IntArg i) = float_of_int i"

text \<open>\<open>s or 0\<close>: the empty string is false, so \<open>0\<close> is taken in its place.\<close>

definition or_zero :: "string \<Rightarrow> str_or_int" where
  "or_zero s = (if s \<noteq> [] then StrArg s else IntArg 0)"

text \<open>\<open>x / y\<close> on floats.\<close>

fun float_truediv :: "pyfloat \<Rightarrow> pyfloat \<Rightarrow> exn + pyfloat" where
  "float_truediv x (Finite t m' e') =
     (if m' = 0 then Inl ZeroDivisionError
      else (case x of
              NaN \<Rightarrow> Inr NaN
            | Infinite s \<Rightarrow> Inr (Infinite (s \<noteq> t))
            | Finite s m e \<Rightarrow>
                Inr (if e' \<le> e then round_double (s \<noteq> t) (m * 2 ^ nat (e - e')) m'
                     else round_double (s \<noteq> t) m (m' * 2 ^ nat (e' - e)))))"
| "float_truediv x NaN = Inr NaN"
| "float_truediv x (Infinite t) =
     (case x of
        Finite s m e \<Rightarrow> Inr (Finite (s \<noteq> t) 0 (- 1074))
      | _ \<Rightarrow> Inr NaN)"

text \<open>\<open>x / i\<close> for a float and an integer: the integer is converted first.\<close>

definition truediv_int :: "pyfloat \<Rightarrow> int \<Rightarrow> exn + pyfloat" where
  "truediv_int x i = bind_exn (float_of_int i) (float_truediv x)"

text \<open>
  \<open>f"{x:.4f}"\<close>: the exact value rounded to four decimals, ties to even; the sign is kept
  even when the digits are all zero.
\<close>

definition format_4f :: "pyfloat \<Rightarrow> string" where
  "format_4f x = (case x of
       NaN \<Rightarrow> ''nan''
     | Infinite neg \<Rightarrow> (if neg then ''-inf'' else ''inf'')
     | Finite neg m e \<Rightarrow>
         (let n = (if 0 \<le> e then m * 2 ^ nat e * 10000 else rne (m * 10000) (2 ^ nat (- e)))
          in (if neg then ''-'' else []) @ str_nat (n div 10000) @ ''.'' @ zero_pad 4 (n mod 10000)))"

section \<open>Documents\<close>

text \<open>
  The parsed page, as \<open>BeautifulSoup(response.text, 'html.parser')\<close> gives it: a tree of
  tags, each with a name, its attributes and its children, and of strings. The attributes
  of a tag are a dictionary from names to values, kept as a list of pairs with one pair
  per name. Only the strings that \<open>.text\<close> collects are in the tree (comments and the like
  are left out).
\<close>

datatype node = Element string "(string \<times> string) list" "node list" | NavigableString string

text \<open>All nodes below a node, in document order.\<close>

fun descendants :: "node \<Rightarrow> node list" where
  "descendants (NavigableString s) = []"
| "descendants (Element name attrs children) = concat (map (\<lambda>c. c # descendants c) children)"

text \<open>\<open>tag.text\<close>: the strings below the tag, joined.\<close>

fun get_text :: "node \<Rightarrow> string" where
  "get_text (NavigableString s) = s"
| "get_text (Element name attrs children) = concat (map get_text children)"

definition is_tag :: "string \<Rightarrow> node \<Rightarrow> bool" where
  "is_tag name n = (case n of Element nm attrs children \<Rightarrow> nm = name | NavigableString s \<Rightarrow> False)"

definition has_attrs :: "(string \<times> string) list \<Rightarrow> node \<Rightarrow> bool" where
  "has_attrs wanted n = (case n of
       Element nm attrs children \<Rightarrow> list_all (\<lambda>kv. map_of attrs (fst kv) = Some (snd kv)) wanted
     | NavigableString s \<Rightarrow> False)"

text \<open>\<open>tag.find_all(name)\<close>: every tag of that name below \<open>tag\<close>, in document order.\<close>

definition find_all :: "node \<Rightarrow> string \<Rightarrow> node list" where
  "find_all n name = filter (is_tag name) (descendants n)"

text \<open>
  \<open>tag.find(name, attrs)\<close>: the first tag of that name below \<open>tag\<close> that carries each of
  the wanted attribute values, or \<open>None\<close>.
\<close>

definition find_tag :: "node \<Rightarrow> string \<Rightarrow> (string \<times> string) list \<Rightarrow> node option" where
  "find_tag n name wanted = List.find (\<lambda>d. is_tag name d \<and> has_attrs wanted d) (descendants n)"

section \<open>The parser object and its surroundings\<close>

record parser =
  base_url :: string
  headers :: "(string \<times> string) list"
  data_dir :: string
  max_retries :: nat
  retry_delay :: nat
  output_file :: string

definition init_parser :: parser where
  "init_parser = \<lparr>
     base_url = ''https://www.bankofchina.com/sourcedb/whpj/enindex_1619.html'',
     headers = [
       (''Accept'', ''text/html,application/xhtml+xml,application/xml;q=0.9,image/avif,image/webp,image/apng,*/*;q=0.8,application/signed-exchange;v=b3;q=0.7''),
       (''User-Agent'', ''Mozilla/5.0 (Windows NT 10.0; Win64; x64) AppleWebKit/537.36 (KHTML, like Gecko) Chrome/135.0.0.0 Safari/537.36''),
       (''Accept-Language'', ''en-US,en;q=0.9'')],
     data_dir = ''data'',
     max_retries = 3,
     retry_delay = 5,
     output_file = ''data'' @ ''/exchange_rates.csv'' \<rparr>"

text \<open>
  What one \<open>requests.get\<close> comes back with: an exception, or a response with its status
  code and its parsed body.
\<close>

datatype http_outcome = Request_failed | Response nat node

text \<open>\<open>datetime.now()\<close> and its \<open>strftime('%Y-%m-%d %H:%M:%S')\<close>.\<close>

record datetime =
  year :: nat
  month :: nat
  day :: nat
  hour :: nat
  minute :: nat
  second :: nat

definition strftime :: "datetime \<Rightarrow> string" where
  "strftime t = zero_pad 4 (year t) @ ''-'' @ zero_pad 2 (month t) @ ''-'' @ zero_pad 2 (day t)
     @ '' '' @ zero_pad 2 (hour t) @ '':'' @ zero_pad 2 (minute t) @ '':'' @ zero_pad 2 (second t)"

text \<open>
  The outside of the program: the outcome of the \<open>k\<close>-th request of the process, and the
  local time read while that outcome is being worked on.
\<close>

record env =
  http :: "nat \<Rightarrow> http_outcome"
  clock :: "nat \<Rightarrow> datetime"

text \<open>
  Log lines are kept by level and content, not as rendered text: \<open>Attempt_failed n e\<close> is
  "Attempt n failed: e", \<open>Retrying d\<close> is "Retrying in d seconds...", \<open>Max_retries\<close> is
  "Max retries reached. Giving up.", \<open>Fetching\<close> is the start-of-run notice,
  \<open>Middle_rate x\<close> is "USD Exchange Rate (Middle Rate): x", \<open>Saved f\<close> is
  "Exchange rate data saved to f", \<open>Fetch_failed\<close> is "Failed to fetch exchange rate data".
\<close>

datatype level = INFO | ERROR

datatype message =
    Fetching
  | Attempt_failed nat exn
  | Retrying nat
  | Max_retries
  | Middle_rate pyfloat
  | Saved string
  | Fetch_failed

datatype event = Log level message | Sleep nat

text \<open>
  The data directory and the output file in it: the directory is missing, is something
  other than a directory, or is a directory in which the output file is missing, is itself
  a directory, or is a regular file with its content.
\<close>

datatype file_node = No_file | Is_directory | Regular string

datatype dir_node = Missing | Not_a_directory | Directory file_node

record world =
  requests_made :: nat
  events :: "event list"
  disk :: dir_node

definition log :: "level \<Rightarrow> message \<Rightarrow> world \<Rightarrow> world" where
  "log lv msg w = w\<lparr>events := events w @ [Log lv msg]\<rparr>"

definition sleep :: "nat \<Rightarrow> world \<Rightarrow> world" where
  "sleep d w = w\<lparr>events := events w @ [Sleep d]\<rparr>"

section \<open>Fetching and extracting\<close>

text \<open>
  The dictionary that \<open>get_exchange_rates\<close> returns always has the same eight keys; it
  is a record with one field per key, in the order of the source.
\<close>

record exchange_rate =
  currency_name :: string
  buying_rate :: pyfloat
  cash_buying_rate :: pyfloat
  selling_rate :: pyfloat
  cash_selling_rate :: pyfloat
  middle_rate :: pyfloat
  pub_time :: string
  timestamp :: string

text \<open>\<open>float(cells[i].text.strip() or 0) / 100\<close>\<close>

definition rate_cell :: "node list \<Rightarrow> nat \<Rightarrow> exn + pyfloat" where
  "rate_cell cells i =
     bind_exn (py_index cells i) (\<lambda>c.
     bind_exn (py_float (or_zero (py_strip (get_text c)))) (\<lambda>x.
     truediv_int x 100))"

text \<open>The dictionary display of the matched row; its entries are evaluated in order.\<close>

definition row_dict :: "node list \<Rightarrow> datetime \<Rightarrow> exn + exchange_rate" where
  "row_dict cells now =
     bind_exn (rate_cell cells 1) (\<lambda>b.
     bind_exn (rate_cell cells 2) (\<lambda>cb.
     bind_exn (rate_cell cells 3) (\<lambda>s.
     bind_exn (rate_cell cells 4) (\<lambda>cs.
     bind_exn (rate_cell cells 5) (\<lambda>m.
     bind_exn (py_index cells 6) (\<lambda>p.
       Inr \<lparr> currency_name = ''USD'',
             buying_rate = b,
             cash_buying_rate = cb,
             selling_rate = s,
             cash_selling_rate = cs,
             middle_rate = m,
             pub_time = py_strip (get_text p),
             timestamp = strftime now \<rparr>))))))"

text \<open>The loop over the rows, leaving at the first row that matches.\<close>

fun scan_rows :: "node list \<Rightarrow> datetime \<Rightarrow> exn + exchange_rate" where
  "scan_rows [] now = Inl (Exception ''USD rate not found in the table'')"
| "scan_rows (row # rows) now =
     (case find_all row ''td'' of
        [] \<Rightarrow> scan_rows rows now
      | c # cs \<Rightarrow>
          if py_strip (get_text c) = ''USD'' then row_dict (c # cs) now
          else scan_rows rows now)"

text \<open>The body of the \<open>try\<close>: one request and the search in its answer.\<close>

definition fetch_once :: "http_outcome \<Rightarrow> datetime \<Rightarrow> exn + exchange_rate" where
  "fetch_once outcome now = (case outcome of
       Request_failed \<Rightarrow> Inl RequestException
     | Response status soup \<Rightarrow>
         if 400 \<le> status \<and> status < 600 then Inl (HTTPError status)
         else (case find_tag soup ''table''
                      [(''width'', ''600''), (''cellpadding'', ''5''), (''cellspacing'', ''1'')] of
                 None \<Rightarrow> Inl (Exception ''Exchange rate table not found'')
               | Some table \<Rightarrow> scan_rows (drop 1 (find_all table ''tr'')) now))"

text \<open>
  The loop \<open>for attempt in range(self.max_retries)\<close> from the iteration \<open>attempt\<close> on.
\<close>

function attempts_from :: "parser \<Rightarrow> env \<Rightarrow> nat \<Rightarrow> world \<Rightarrow> exchange_rate option \<times> world" where
  "attempts_from self env attempt w =
     (if attempt < max_retries self then
        (let k = requests_made w; w1 = w\<lparr>requests_made := k + 1\<rparr> in
         case fetch_once (http env k) (clock env k) of
           Inr r \<Rightarrow> (Some r, w1)
         | Inl e \<Rightarrow>
             (let w2 = log ERROR (Attempt_failed (attempt + 1) e) w1 in
              if attempt < max_retries self - 1
              then attempts_from self env (attempt + 1)
                     (sleep (retry_delay self) (log INFO (Retrying (retry_delay self)) w2))
              else (None, log ERROR Max_retries w2)))
      else (None, w))"
  by pat_completeness auto
termination
  by (relation "measure (\<lambda>(self, env, attempt, w). max_retries self - attempt)") auto

declare attempts_from.simps [simp del]

definition get_exchange_rates :: "parser \<Rightarrow> env \<Rightarrow> world \<Rightarrow> exchange_rate option \<times> world" where
  "get_exchange_rates self env w = attempts_from self env 0 w"

section \<open>Writing the output file\<close>

text \<open>
  \<open>csv.DictWriter(csvfile, fieldnames, delimiter='\t')\<close> writes in the \<open>excel\<close> dialect
  with the delimiter replaced: a field that holds the delimiter, the quote character, a
  carriage return or a line feed is put in quotes with its quotes doubled, fields are
  joined by the delimiter, and a row ends with carriage return and line feed.
\<close>

definition csv_special :: "char \<Rightarrow> bool" where
  "csv_special c = (c \<in> set [CHR 0x09, CHR 0x22, CHR 0x0D, CHR 0x0A])"

definition csv_field :: "string \<Rightarrow> string" where
  "csv_field s =
     (if list_ex csv_special s
      then [CHR 0x22] @ concat (map (\<lambda>c. if c = CHR 0x22 then [c, c] else [c]) s) @ [CHR 0x22]
      else s)"

fun join_fields :: "string list \<Rightarrow> string" where
  "join_fields [] = []"
| "join_fields [f] = f"
| "join_fields (f # g # fs) = f @ [CHR 0x09] @ join_fields (g # fs)"

definition writerow :: "string list \<Rightarrow> string" where
  "writerow row = join_fields (map csv_field row) @ [CHR 0x0D, CHR 0x0A]"

definition fieldnames :: "string list" where
  "fieldnames = [''Currency Name'', ''Buying Rate'', ''Cash Buying Rate'', ''Selling Rate'',
     ''Cash Selling Rate'', ''Middle Rate'', ''Pub Time'', ''Timestamp'']"

text \<open>\<open>formatted_data\<close>, as the writer lays it out along \<open>fieldnames\<close>.\<close>

definition formatted_data :: "exchange_rate \<Rightarrow> string list" where
  "formatted_data d = [
     currency_name d,
     format_4f (buying_rate d),
     format_4f (cash_buying_rate d),
     format_4f (selling_rate d),
     format_4f (cash_selling_rate d),
     format_4f (middle_rate d),
     pub_time d,
     timestamp d]"

text \<open>\<open>os.makedirs(self.data_dir, exist_ok=True)\<close>\<close>

definition makedirs :: "dir_node \<Rightarrow> exn + dir_node" where
  "makedirs d = (case d of
       Missing \<Rightarrow> Inr (Directory No_file)
     | Not_a_directory \<Rightarrow> Inl FileExistsError
     | Directory f \<Rightarrow> Inr (Directory f))"

text \<open>\<open>os.path.isfile(self.output_file)\<close>\<close>

definition isfile :: "dir_node \<Rightarrow> bool" where
  "isfile d = (case d of Directory (Regular c) \<Rightarrow> True | _ \<Rightarrow> False)"

text \<open>
  \<open>open(self.output_file, 'a', newline='', encoding='utf-8')\<close> in an existing data
  directory: the content of the file that is appended to, created empty when missing. The
  content is kept as text, before its encoding; with \<open>newline=''\<close> what is written is
  stored as it is.
\<close>

definition open_append :: "file_node \<Rightarrow> exn + string" where
  "open_append f = (case f of
       No_file \<Rightarrow> Inr []
     | Is_directory \<Rightarrow> Inl IsADirectoryError
     | Regular c \<Rightarrow> Inr c)"

text \<open>
  \<open>save_to_csv\<close> returns nothing; the result here is the exception that left it, if any,
  and the world after it. \<open>None\<close> as \<open>data\<close> is the \<open>None\<close> of a failed fetch.
\<close>

definition save_to_csv :: "parser \<Rightarrow> exchange_rate option \<Rightarrow> world \<Rightarrow> exn option \<times> world" where
  "save_to_csv self data w = (case data of
       None \<Rightarrow> (None, w)
     | Some d \<Rightarrow>
         (case makedirs (disk w) of
            Inl e \<Rightarrow> (Some e, w)
          | Inr made \<Rightarrow>
              (let file_exists = isfile made in
               case open_append (case made of Directory f \<Rightarrow> f | _ \<Rightarrow> No_file) of
                 Inl e \<Rightarrow> (Some e, w\<lparr>disk := made\<rparr>)
               | Inr content \<Rightarrow>
                   (let with_header = (if \<not> file_exists then content @ writerow fieldnames
                                       else content);
                        with_row = with_header @ writerow (formatted_data d)
                    in (None, log INFO (Saved (output_file self))
                                (w\<lparr>disk := Directory (Regular with_row)\<rparr>))))))"

section \<open>One run\<close>

definition run :: "parser \<Rightarrow> env \<Rightarrow> world \<Rightarrow> exn option \<times> world" where
  "run self env w =
     (let (exchange_data, w1) = get_exchange_rates self env (log INFO Fetching w) in
      case exchange_data of
        Some d \<Rightarrow> save_to_csv self (Some d) (log INFO (Middle_rate (middle_rate d)) w1)
      | None \<Rightarrow> (None, log ERROR Fetch_failed w1))"

section \<open>Notions used to state the properties\<close>

text \<open>The attributes by which the rate table is recognised.\<close>

abbreviation table_signature :: "(string \<times> string) list" where
  "table_signature \<equiv> [(''width'', ''600''), (''cellpadding'', ''5''), (''cellspacing'', ''1'')]"

text \<open>A row for the currency: it has \<open>td\<close> cells and the first one, trimmed, reads \<open>USD\<close>.\<close>

definition has_usd_cell :: "node \<Rightarrow> bool" where
  "has_usd_cell row = (case find_all row ''td'' of
       [] \<Rightarrow> False
     | c # cs \<Rightarrow> py_strip (get_text c) = ''USD'')"

text \<open>The value of \<open>x / 100\<close>; the division itself never raises (lemma \<open>truediv_int_100\<close>).\<close>

definition hundredth :: "pyfloat \<Rightarrow> pyfloat" where
  "hundredth x = (case truediv_int x 100 of Inr q \<Rightarrow> q | Inl e \<Rightarrow> NaN)"

text \<open>What the \<open>k\<close>-th request of the process leads to.\<close>

definition outcome :: "env \<Rightarrow> nat \<Rightarrow> exn + exchange_rate" where
  "outcome env k = fetch_once (http env k) (clock env k)"

text \<open>The rate field that column \<open>i\<close> of the row is stored in.\<close>

definition rate_field :: "nat \<Rightarrow> exchange_rate \<Rightarrow> pyfloat" where
  "rate_field i r =
     (if i = 1 then buying_rate r
      else if i = 2 then cash_buying_rate r
      else if i = 3 then selling_rate r
      else if i = 4 then cash_selling_rate r
      else middle_rate r)"

text \<open>A page with no rate table, or with a rate table that has no row for the currency.\<close>

definition lacks_usd_row :: "node \<Rightarrow> bool" where
  "lacks_usd_row soup = (case find_tag soup ''table'' table_signature of
       None \<Rightarrow> True
     | Some table \<Rightarrow> List.find has_usd_cell (drop 1 (find_all table ''tr'')) = None)"

definition is_attempt_failure :: "event \<Rightarrow> bool" where
  "is_attempt_failure ev = (case ev of
       Log lv msg \<Rightarrow> lv = ERROR \<and> (case msg of Attempt_failed n e \<Rightarrow> True | _ \<Rightarrow> False)
     | Sleep d \<Rightarrow> False)"

definition is_terminal_failure :: "event \<Rightarrow> bool" where
  "is_terminal_failure ev = (ev = Log ERROR Max_retries)"

definition is_finite :: "pyfloat \<Rightarrow> bool" where
  "is_finite x = (case x of Finite neg m e \<Rightarrow> True | _ \<Rightarrow> False)"

text \<open>
  A fixed-point decimal with four digits after the point: an optional minus sign, at least
  one digit, the point, and exactly four digits.
\<close>

definition four_decimals :: "string \<Rightarrow> bool" where
  "four_decimals s =
     (let body = (case s of [] \<Rightarrow> [] | c # cs \<Rightarrow> if c = CHR ''-'' then cs else s);
          ip = takeWhile is_digit body;
          rest = dropWhile is_digit body
      in ip \<noteq> [] \<and>
         (case rest of
            [] \<Rightarrow> False
          | c # fp \<Rightarrow> c = CHR ''.'' \<and> length fp = 4 \<and> list_all is_digit fp))"

text \<open>Several calls of \<open>save_to_csv\<close> in a row, up to the first that raises.\<close>

fun save_all :: "parser \<Rightarrow> exchange_rate list \<Rightarrow> world \<Rightarrow> exn option \<times> world" where
  "save_all self [] w = (None, w)"
| "save_all self (d # ds) w =
     (case save_to_csv self (Some d) w of
        (None, w') \<Rightarrow> save_all self ds w'
      | (Some e, w') \<Rightarrow> (Some e, w'))"

subsection \<open>Sample pages\<close>

definition td :: "string \<Rightarrow> node" where
  "td s = Element ''td'' [] [NavigableString s]"

definition th :: "string \<Rightarrow> node" where
  "th s = Element ''th'' [] [NavigableString s]"

definition header_row :: node where
  "header_row = Element ''tr'' [] [th ''Currency Name'', th ''Buying Rate'', th ''Pub Time'']"

definition eur_row :: node where
  "eur_row = Element ''tr'' [] [td ''EUR'', td ''78000'']"

definition usd_cells :: "node list" where
  "usd_cells = [td '' USD'', td ''68000'', td ''67500 '', td ''68300'', td ''68600'',
     td ''68150'', td ''09:30:00 '']"

definition rate_table :: "node list \<Rightarrow> node" where
  "rate_table rows = Element ''table''
     [(''cellpadding'', ''5''), (''cellspacing'', ''1''), (''width'', ''600'')] rows"

definition page_of :: "node list \<Rightarrow> node" where
  "page_of body = Element ''[document]'' [] [Element ''html'' [] [Element ''body'' [] body]]"

definition other_table :: node where
  "other_table = Element ''table'' [(''width'', ''100%'')] [Element ''tr'' [] [td ''USD'']]"

definition sample_page :: node where
  "sample_page = page_of [other_table,
     rate_table [header_row, Element ''tr'' [] [], eur_row, Element ''tr'' [] usd_cells]]"

definition page_without_table :: node where
  "page_without_table = page_of [other_table]"

definition page_without_usd :: node where
  "page_without_usd = page_of [rate_table [header_row, eur_row]]"

definition page_with_bad_row :: node where
  "page_with_bad_row = page_of [rate_table [header_row, Element ''tr'' [] [td ''USD'', td ''n/a'']]]"

definition blank_cells :: "node list" where
  "blank_cells = [td ''USD'', td ''  '', Element ''td'' [] []]"

definition nan_cells :: "node list" where
  "nan_cells = [td '' USD'', td ''nan'', td ''67500 '', td ''68300'', td ''68600'',
     td ''68150'', td ''09:30:00 '']"

definition nan_page :: node where
  "nan_page = page_of [rate_table [header_row, Element ''tr'' [] nan_cells]]"

definition nine_thirty :: datetime where
  "nine_thirty = \<lparr>year = 2025, month = 4, day = 1, hour = 9, minute = 30, second = 5\<rparr>"

definition sample_env :: "node \<Rightarrow> env" where
  "sample_env page = \<lparr>http = (\<lambda>k. Response 200 page), clock = (\<lambda>k. nine_thirty)\<rparr>"

definition offline_env :: env where
  "offline_env = \<lparr>http = (\<lambda>k. Request_failed), clock = (\<lambda>k. nine_thirty)\<rparr>"

definition fresh_world :: world where
  "fresh_world = \<lparr>requests_made = 0, events = [], disk = Missing\<rparr>"

definition sample_rate :: exchange_rate where
  "sample_rate = \<lparr>
     currency_name = ''USD'',
     buying_rate = Finite False 5981343255101440 (- 43),
     cash_buying_rate = Finite False 5937362789990400 (- 43),
     selling_rate = Finite False 6007731534168064 (- 43),
     cash_selling_rate = Finite False 6034119813234688 (- 43),
     middle_rate = Finite False 5994537394634752 (- 43),
     pub_time = ''09:30:00'',
     timestamp = ''2025-04-01 09:30:05'' \<rparr>"

definition nan_rate :: exchange_rate where
  "nan_rate = sample_rate\<lparr>buying_rate := NaN\<rparr>"

text \<open>A record whose published time holds a tab and quotes: \<open>09:30<TAB>"am"\<close>.\<close>

definition quoted_rate :: exchange_rate where
  "quoted_rate = sample_rate\<lparr>pub_time := ''09:30'' @ [CHR 0x09, CHR 0x22] @ ''am'' @ [CHR 0x22]\<rparr>"

section \<open>Auxiliary facts\<close>

subsection \<open>Numbers\<close>

lemma replicate_numeral: "replicate (numeral k) x = x # replicate (pred_numeral k) x"
  by (simp add: numeral_eq_Suc)

lemmas float_eval = float_of_str_def py_strip_def py_isspace_def is_digit_def split_sign_def
  parse_decimal_def parse_exponent_def nat_of_digits_def digit_val_def round_double_def
  floor_log2_def bitlen.simps rne_def ascii_lower_def Let_def

lemma float_of_int_100: "float_of_int 100 = Inr (Finite False 7036874417766400 (- 46))"
  by (simp add: float_of_int_def round_double_def floor_log2_def bitlen.simps rne_def Let_def)

lemma float_of_int_0: "float_of_int 0 = Inr (Finite False 0 (- 1074))"
  by (simp add: float_of_int_def round_double_def)

lemma truediv_int_100: "truediv_int x 100 = Inr (hundredth x)"
  by (cases x) (simp_all add: hundredth_def truediv_int_def float_of_int_100 bind_exn_def)

lemma float_of_str_empty: "float_of_str [] = Inl ValueError"
  by (simp add: float_of_str_def py_strip_def split_sign_def parse_decimal_def)

lemma hundredth_zero: "hundredth (Finite False 0 (- 1074)) = Finite False 0 (- 1074)"
  by (simp add: hundredth_def truediv_int_def float_of_int_100 bind_exn_def round_double_def)

lemma hundredth_NaN: "hundredth NaN = NaN"
  by (simp add: hundredth_def truediv_int_def float_of_int_100 bind_exn_def)

lemma rate_cell_number:
  assumes "i < length cells" and "float_of_str (py_strip (get_text (cells ! i))) = Inr x"
  shows "rate_cell cells i = Inr (hundredth x)"
proof -
  from assms(2) have "py_strip (get_text (cells ! i)) \<noteq> []"
    using float_of_str_empty by auto
  with assms show ?thesis
    by (simp add: rate_cell_def py_index_def bind_exn_def or_zero_def truediv_int_100)
qed

lemma rate_cell_empty:
  assumes "i < length cells" and "py_strip (get_text (cells ! i)) = []"
  shows "rate_cell cells i = Inr (Finite False 0 (- 1074))"
  using assms
  by (simp add: rate_cell_def py_index_def bind_exn_def or_zero_def float_of_int_0
      truediv_int_100 hundredth_zero)

subsection \<open>The loop over the rows\<close>

lemma scan_rows_find:
  "scan_rows rows now = (case List.find has_usd_cell rows of
      None \<Rightarrow> Inl (Exception ''USD rate not found in the table'')
    | Some row \<Rightarrow> row_dict (find_all row ''td'') now)"
  by (induction rows) (auto simp: has_usd_cell_def split: list.splits)

lemma row_dict_complete:
  assumes "7 \<le> length cells"
      and "rate_cell cells 1 = Inr b" and "rate_cell cells 2 = Inr cb"
      and "rate_cell cells 3 = Inr s" and "rate_cell cells 4 = Inr cs"
      and "rate_cell cells 5 = Inr m"
  shows "row_dict cells now = Inr \<lparr> currency_name = ''USD'', buying_rate = b,
           cash_buying_rate = cb, selling_rate = s, cash_selling_rate = cs, middle_rate = m,
           pub_time = py_strip (get_text (cells ! 6)), timestamp = strftime now \<rparr>"
  using assms by (simp add: row_dict_def bind_exn_def py_index_def)

subsection \<open>The retry loop\<close>

lemma attempts_from_success:
  assumes "attempt < max_retries self"
      and "fetch_once (http env (requests_made w)) (clock env (requests_made w)) = Inr r"
  shows "attempts_from self env attempt w = (Some r, w\<lparr>requests_made := requests_made w + 1\<rparr>)"
  using assms by (subst attempts_from.simps) (simp add: Let_def)

lemma attempts_from_retry:
  assumes "attempt < max_retries self - 1"
      and "fetch_once (http env (requests_made w)) (clock env (requests_made w)) = Inl e"
  shows "attempts_from self env attempt w =
         attempts_from self env (attempt + 1)
           (sleep (retry_delay self) (log INFO (Retrying (retry_delay self))
              (log ERROR (Attempt_failed (attempt + 1) e)
                 (w\<lparr>requests_made := requests_made w + 1\<rparr>))))"
proof -
  from assms(1) have "attempt < max_retries self" by arith
  with assms show ?thesis by (subst attempts_from.simps) (simp add: Let_def)
qed

lemma attempts_from_give_up:
  assumes "attempt < max_retries self" and "\<not> attempt < max_retries self - 1"
      and "fetch_once (http env (requests_made w)) (clock env (requests_made w)) = Inl e"
  shows "attempts_from self env attempt w =
         (None, log ERROR Max_retries
                  (log ERROR (Attempt_failed (attempt + 1) e)
                     (w\<lparr>requests_made := requests_made w + 1\<rparr>)))"
  using assms by (subst attempts_from.simps) (simp add: Let_def)

lemma attempts_from_disk: "disk (snd (attempts_from self env attempt w)) = disk w"
proof (induction self env attempt w rule: attempts_from.induct)
  case (1 self env attempt w)
  show ?case
  proof (cases "attempt < max_retries self")
    case False
    then show ?thesis by (subst attempts_from.simps) simp
  next
    case True
    show ?thesis
    proof (cases "fetch_once (http env (requests_made w)) (clock env (requests_made w))")
      case (Inr r)
      with True show ?thesis by (simp add: attempts_from_success)
    next
      case (Inl e)
      show ?thesis
      proof (cases "attempt < max_retries self - 1")
        case False
        with True Inl show ?thesis by (simp add: attempts_from_give_up log_def)
      next
        case retry: True
        have "disk (snd (attempts_from self env (attempt + 1)
           (sleep (retry_delay self) (log INFO (Retrying (retry_delay self))
              (log ERROR (Attempt_failed (attempt + 1) e)
                 (w\<lparr>requests_made := requests_made w + 1\<rparr>)))))) = disk w"
          using "1.IH"[OF True refl refl Inl refl retry] by (simp add: log_def sleep_def)
        with retry Inl show ?thesis by (simp add: attempts_from_retry)
      qed
    qed
  qed
qed

lemma init_parser_fields [simp]:
  "max_retries init_parser = 3" "retry_delay init_parser = 5"
  "output_file init_parser = ''data/exchange_rates.csv''" "data_dir init_parser = ''data''"
  by (simp_all add: init_parser_def)

subsection \<open>The sample pages\<close>

lemma descendants_page_of:
  "descendants (page_of body) =
     Element ''html'' [] [Element ''body'' [] body] # Element ''body'' [] body
       # concat (map (\<lambda>c. c # descendants c) body)"
  by (simp add: page_of_def)

lemma find_all_tr_rate_table:
  "find_all (rate_table [header_row, Element ''tr'' [] [], eur_row, Element ''tr'' [] usd_cells]) ''tr''
     = [header_row, Element ''tr'' [] [], eur_row, Element ''tr'' [] usd_cells]"
  by (simp add: rate_table_def find_all_def is_tag_def header_row_def eur_row_def usd_cells_def
      td_def th_def)

lemma find_table_sample_page:
  "find_tag sample_page ''table'' table_signature =
     Some (rate_table [header_row, Element ''tr'' [] [], eur_row, Element ''tr'' [] usd_cells])"
  by (simp add: sample_page_def find_tag_def descendants_page_of is_tag_def has_attrs_def
      other_table_def rate_table_def td_def)

lemma find_all_td_rows:
  "find_all header_row ''td'' = []"
  "find_all (Element ''tr'' [] []) ''td'' = []"
  "find_all eur_row ''td'' = [td ''EUR'', td ''78000'']"
  "find_all (Element ''tr'' [] usd_cells) ''td'' = usd_cells"
  by (simp_all add: find_all_def is_tag_def header_row_def eur_row_def usd_cells_def td_def th_def)

lemma strip_samples:
  "py_strip '' USD'' = ''USD''" "py_strip ''EUR'' = ''EUR''" "py_strip ''68000'' = ''68000''"
  "py_strip ''67500 '' = ''67500''" "py_strip ''68300'' = ''68300''"
  "py_strip ''68600'' = ''68600''" "py_strip ''68150'' = ''68150''"
  "py_strip ''09:30:00 '' = ''09:30:00''" "py_strip ''nan'' = ''nan''" "py_strip ''  '' = []"
  "py_strip ''n/a'' = ''n/a''"
  by (simp_all add: py_strip_def py_isspace_def)

lemma has_usd_cell_rows:
  "\<not> has_usd_cell header_row" "\<not> has_usd_cell (Element ''tr'' [] [])" "\<not> has_usd_cell eur_row"
  "has_usd_cell (Element ''tr'' [] usd_cells)"
  by (simp_all add: has_usd_cell_def find_all_td_rows)
     (simp_all add: usd_cells_def td_def strip_samples)

lemma float_of_str_samples:
  "float_of_str ''68000'' = Inr (Finite False 4672924418048000 (- 36))"
  "float_of_str ''67500'' = Inr (Finite False 4638564679680000 (- 36))"
  "float_of_str ''68300'' = Inr (Finite False 4693540261068800 (- 36))"
  "float_of_str ''68600'' = Inr (Finite False 4714156104089600 (- 36))"
  "float_of_str ''68150'' = Inr (Finite False 4683232339558400 (- 36))"
  by (simp_all add: float_eval)

lemma hundredth_samples:
  "hundredth (Finite False 4672924418048000 (- 36)) = Finite False 5981343255101440 (- 43)"
  "hundredth (Finite False 4638564679680000 (- 36)) = Finite False 5937362789990400 (- 43)"
  "hundredth (Finite False 4693540261068800 (- 36)) = Finite False 6007731534168064 (- 43)"
  "hundredth (Finite False 4714156104089600 (- 36)) = Finite False 6034119813234688 (- 43)"
  "hundredth (Finite False 4683232339558400 (- 36)) = Finite False 5994537394634752 (- 43)"
  by (simp_all add: hundredth_def truediv_int_def float_of_int_100 bind_exn_def
      round_double_def floor_log2_def bitlen.simps rne_def Let_def)

lemma strftime_nine_thirty: "strftime nine_thirty = ''2025-04-01 09:30:05''"
  by (simp add: strftime_def nine_thirty_def zero_pad_def str_nat.simps digit_char_def
      replicate_numeral)

subsection \<open>The three attempts of the parser as constructed\<close>

lemma requests_made_log [simp]: "requests_made (log lv msg w) = requests_made w"
  by (simp add: log_def)

lemma requests_made_sleep [simp]: "requests_made (sleep d w) = requests_made w"
  by (simp add: sleep_def)

lemma first_attempt_succeeds:
  assumes "outcome env (requests_made w) = Inr r"
  shows "get_exchange_rates init_parser env w = (Some r, w\<lparr>requests_made := requests_made w + 1\<rparr>)"
  using assms by (simp add: get_exchange_rates_def outcome_def attempts_from_success)

lemma second_attempt_succeeds:
  assumes "outcome env (requests_made w) = Inl e0"
      and "outcome env (requests_made w + 1) = Inr r"
  shows "get_exchange_rates init_parser env w =
     (Some r, w\<lparr>requests_made := requests_made w + 2,
                events := events w @ [Log ERROR (Attempt_failed 1 e0), Log INFO (Retrying 5), Sleep 5]\<rparr>)"
proof -
  let ?w1 = "sleep 5 (log INFO (Retrying 5) (log ERROR (Attempt_failed 1 e0)
               (w\<lparr>requests_made := requests_made w + 1\<rparr>)))"
  have "get_exchange_rates init_parser env w = attempts_from init_parser env 1 ?w1"
    using assms(1) by (simp add: get_exchange_rates_def outcome_def attempts_from_retry)
  also have "\<dots> = (Some r, ?w1\<lparr>requests_made := requests_made ?w1 + 1\<rparr>)"
    using assms(2) by (intro attempts_from_success) (simp_all add: outcome_def)
  finally show ?thesis
    by (simp add: log_def sleep_def)
qed

lemma third_attempt_succeeds:
  assumes "outcome env (requests_made w) = Inl e0"
      and "outcome env (requests_made w + 1) = Inl e1"
      and "outcome env (requests_made w + 2) = Inr r"
  shows "get_exchange_rates init_parser env w =
     (Some r, w\<lparr>requests_made := requests_made w + 3,
                events := events w @ [Log ERROR (Attempt_failed 1 e0), Log INFO (Retrying 5), Sleep 5,
                                      Log ERROR (Attempt_failed 2 e1), Log INFO (Retrying 5), Sleep 5]\<rparr>)"
proof -
  let ?w1 = "sleep 5 (log INFO (Retrying 5) (log ERROR (Attempt_failed 1 e0)
               (w\<lparr>requests_made := requests_made w + 1\<rparr>)))"
  let ?w2 = "sleep 5 (log INFO (Retrying 5) (log ERROR (Attempt_failed (1 + 1) e1)
               (?w1\<lparr>requests_made := requests_made ?w1 + 1\<rparr>)))"
  have "get_exchange_rates init_parser env w = attempts_from init_parser env 1 ?w1"
    using assms(1) by (simp add: get_exchange_rates_def outcome_def attempts_from_retry)
  also have "\<dots> = attempts_from init_parser env (1 + 1) ?w2"
    using assms(2) by (subst attempts_from_retry [where e = e1]) (simp_all add: outcome_def)
  also have "\<dots> = (Some r, ?w2\<lparr>requests_made := requests_made ?w2 + 1\<rparr>)"
    using assms(3) by (intro attempts_from_success) (simp_all add: outcome_def)
  finally show ?thesis
    by (simp add: log_def sleep_def)
qed

lemma all_attempts_fail:
  assumes "outcome env (requests_made w) = Inl e0"
      and "outcome env (requests_made w + 1) = Inl e1"
      and "outcome env (requests_made w + 2) = Inl e2"
  shows "get_exchange_rates init_parser env w =
     (None, w\<lparr>requests_made := requests_made w + 3,
              events := events w @ [Log ERROR (Attempt_failed 1 e0), Log INFO (Retrying 5), Sleep 5,
                                    Log ERROR (Attempt_failed 2 e1), Log INFO (Retrying 5), Sleep 5,
                                    Log ERROR (Attempt_failed 3 e2), Log ERROR Max_retries]\<rparr>)"
proof -
  let ?w1 = "sleep 5 (log INFO (Retrying 5) (log ERROR (Attempt_failed 1 e0)
               (w\<lparr>requests_made := requests_made w + 1\<rparr>)))"
  let ?w2 = "sleep 5 (log INFO (Retrying 5) (log ERROR (Attempt_failed (1 + 1) e1)
               (?w1\<lparr>requests_made := requests_made ?w1 + 1\<rparr>)))"
  have "get_exchange_rates init_parser env w = attempts_from init_parser env 1 ?w1"
    using assms(1) by (simp add: get_exchange_rates_def outcome_def attempts_from_retry)
  also have "\<dots> = attempts_from init_parser env (1 + 1) ?w2"
    using assms(2) by (subst attempts_from_retry [where e = e1]) (simp_all add: outcome_def)
  also have "\<dots> = (None, log ERROR Max_retries (log ERROR (Attempt_failed (1 + 1 + 1) e2)
                         (?w2\<lparr>requests_made := requests_made ?w2 + 1\<rparr>)))"
    using assms(3) by (intro attempts_from_give_up) (simp_all add: outcome_def)
  finally show ?thesis
    by (simp add: log_def sleep_def)
qed

lemma row_dict_usd_cells: "row_dict usd_cells nine_thirty = Inr sample_rate"
proof -
  have len: "7 \<le> length usd_cells" "1 < length usd_cells" "2 < length usd_cells"
    "3 < length usd_cells" "4 < length usd_cells" "5 < length usd_cells"
    by (simp_all add: usd_cells_def)
  have nums:
    "float_of_str (py_strip (get_text (usd_cells ! 1))) = Inr (Finite False 4672924418048000 (- 36))"
    "float_of_str (py_strip (get_text (usd_cells ! 2))) = Inr (Finite False 4638564679680000 (- 36))"
    "float_of_str (py_strip (get_text (usd_cells ! 3))) = Inr (Finite False 4693540261068800 (- 36))"
    "float_of_str (py_strip (get_text (usd_cells ! 4))) = Inr (Finite False 4714156104089600 (- 36))"
    "float_of_str (py_strip (get_text (usd_cells ! 5))) = Inr (Finite False 4683232339558400 (- 36))"
    by (simp_all add: usd_cells_def td_def strip_samples float_of_str_samples)
  have pub: "py_strip (get_text (usd_cells ! 6)) = ''09:30:00''"
    by (simp add: usd_cells_def td_def strip_samples)
  show ?thesis
    using row_dict_complete [OF len(1) rate_cell_number [OF len(2) nums(1)]
        rate_cell_number [OF len(3) nums(2)] rate_cell_number [OF len(4) nums(3)]
        rate_cell_number [OF len(5) nums(4)] rate_cell_number [OF len(6) nums(5)],
        of nine_thirty]
    by (simp add: pub strftime_nine_thirty hundredth_samples sample_rate_def)
qed

subsection \<open>Failing attempts\<close>

lemma failed_first_attempt_retried:
  assumes "outcome env (requests_made w) = Inl e"
  shows "requests_made w + 2 \<le> requests_made (snd (get_exchange_rates init_parser env w))"
proof (cases "outcome env (requests_made w + 1)")
  case (Inr r)
  with assms show ?thesis
    by (simp add: second_attempt_succeeds)
next
  case e1: (Inl e1)
  show ?thesis
  proof (cases "outcome env (requests_made w + 2)")
    case (Inr r)
    with assms e1 show ?thesis
      by (simp add: third_attempt_succeeds)
  next
    case (Inl e2)
    with assms e1 show ?thesis
      by (simp add: all_attempts_fail)
  qed
qed

lemma fetch_once_lacking:
  assumes "\<not> (400 \<le> status \<and> status < 600)" and "lacks_usd_row soup"
  shows "\<exists>e. fetch_once (Response status soup) now = Inl e"
  using assms
  by (auto simp: fetch_once_def lacks_usd_row_def scan_rows_find split: option.splits)

lemma float_of_str_error: "float_of_str s = Inl e \<Longrightarrow> e = ValueError"
  by (auto simp: float_of_str_def Let_def split: option.splits prod.splits if_splits)

lemma rate_cell_error:
  assumes "rate_cell cells i = Inl e"
  shows "e = IndexError \<or> e = ValueError"
proof (cases "i < length cells")
  case False
  with assms show ?thesis
    by (simp add: rate_cell_def py_index_def bind_exn_def)
next
  case True
  show ?thesis
  proof (cases "py_strip (get_text (cells ! i)) = []")
    case True
    with \<open>i < length cells\<close> assms show ?thesis
      by (simp add: rate_cell_empty)
  next
    case False
    with \<open>i < length cells\<close> assms show ?thesis
      by (auto simp: rate_cell_def py_index_def bind_exn_def or_zero_def truediv_int_100
          split: sum.splits dest: float_of_str_error)
  qed
qed

lemma row_dict_error:
  assumes "row_dict cells now = Inl e"
  shows "e = IndexError \<or> e = ValueError"
  using assms
  by (auto simp: row_dict_def bind_exn_def py_index_def
      split: sum.splits if_splits dest: rate_cell_error)

lemma row_dict_Inr:
  assumes "row_dict cells now = Inr r"
  shows "7 \<le> length cells"
    and "rate_cell cells 1 = Inr (buying_rate r)"
    and "rate_cell cells 2 = Inr (cash_buying_rate r)"
    and "rate_cell cells 3 = Inr (selling_rate r)"
    and "rate_cell cells 4 = Inr (cash_selling_rate r)"
    and "rate_cell cells 5 = Inr (middle_rate r)"
    and "pub_time r = py_strip (get_text (cells ! 6))"
    and "currency_name r = ''USD''"
    and "timestamp r = strftime now"
  using assms
  by (auto simp: row_dict_def bind_exn_def py_index_def split: sum.splits if_splits)

lemma fetch_once_Inr:
  assumes "fetch_once out now = Inr r"
  shows "\<exists>status soup table row. out = Response status soup
           \<and> \<not> (400 \<le> status \<and> status < 600)
           \<and> find_tag soup ''table'' table_signature = Some table
           \<and> List.find has_usd_cell (drop 1 (find_all table ''tr'')) = Some row
           \<and> row_dict (find_all row ''td'') now = Inr r"
  using assms
  by (auto simp: fetch_once_def scan_rows_find split: http_outcome.splits if_splits option.splits)

lemma get_exchange_rates_Some:
  assumes "fst (get_exchange_rates init_parser env w) = Some r"
  shows "\<exists>k<3. outcome env (requests_made w + k) = Inr r"
proof (cases "outcome env (requests_made w)")
  case (Inr r0)
  with assms have "outcome env (requests_made w + 0) = Inr r"
    by (simp add: first_attempt_succeeds)
  then show ?thesis by (intro exI [of _ 0]) simp
next
  case e0: (Inl e0)
  show ?thesis
  proof (cases "outcome env (requests_made w + 1)")
    case (Inr r1)
    with assms e0 have "outcome env (requests_made w + 1) = Inr r"
      by (simp add: second_attempt_succeeds)
    then show ?thesis by (intro exI [of _ 1]) simp
  next
    case e1: (Inl e1)
    show ?thesis
    proof (cases "outcome env (requests_made w + 2)")
      case (Inr r2)
      with assms e0 e1 have "outcome env (requests_made w + 2) = Inr r"
        by (simp add: third_attempt_succeeds)
      then show ?thesis by (intro exI [of _ 2]) simp
    next
      case (Inl e2)
      with assms e0 e1 show ?thesis
        by (simp add: all_attempts_fail)
    qed
  qed
qed

lemma find_table_page_without_usd:
  "find_tag page_without_usd ''table'' table_signature = Some (rate_table [header_row, eur_row])"
  by (simp add: page_without_usd_def find_tag_def descendants_page_of is_tag_def has_attrs_def
      rate_table_def)

lemma lacks_usd_row_samples:
  "lacks_usd_row page_without_table" "lacks_usd_row page_without_usd"
proof -
  show "lacks_usd_row page_without_table"
    by (simp add: lacks_usd_row_def page_without_table_def find_tag_def descendants_page_of
        is_tag_def has_attrs_def other_table_def td_def)
  have "find_all (rate_table [header_row, eur_row]) ''tr'' = [header_row, eur_row]"
    by (simp add: rate_table_def find_all_def is_tag_def header_row_def eur_row_def td_def th_def)
  then show "lacks_usd_row page_without_usd"
    by (simp add: lacks_usd_row_def find_table_page_without_usd has_usd_cell_rows)
qed

subsection \<open>Digits and the fixed-point format\<close>

lemma is_digit_digit_char: "d < 10 \<Longrightarrow> is_digit (digit_char d)"
  unfolding is_digit_def digit_char_def by (rule nth_mem) simp

lemma str_nat_digits: "list_all is_digit (str_nat n)"
proof (induction n rule: str_nat.induct)
  case (1 n)
  show ?case
  proof (cases "n < 10")
    case True
    then show ?thesis
      by (subst str_nat.simps) (simp add: is_digit_digit_char)
  next
    case False
    with "1.IH" show ?thesis
      by (subst str_nat.simps) (simp add: is_digit_digit_char)
  qed
qed

lemma str_nat_nonempty: "str_nat n \<noteq> []"
  by (subst str_nat.simps) simp

lemma length_str_nat_1: "n < 10 \<Longrightarrow> length (str_nat n) = 1"
  by (subst str_nat.simps) simp

lemma length_str_nat_2: "n < 100 \<Longrightarrow> length (str_nat n) \<le> 2"
  by (subst str_nat.simps) (simp add: length_str_nat_1)

lemma length_str_nat_3: "n < 1000 \<Longrightarrow> length (str_nat n) \<le> 3"
proof -
  assume "n < 1000"
  then have "n div 10 < 100" by simp
  then have "length (str_nat (n div 10)) \<le> 2" by (rule length_str_nat_2)
  then show ?thesis by (subst str_nat.simps) simp
qed

lemma length_str_nat_4: "n < 10000 \<Longrightarrow> length (str_nat n) \<le> 4"
proof -
  assume "n < 10000"
  then have "n div 10 < 1000" by simp
  then have "length (str_nat (n div 10)) \<le> 3" by (rule length_str_nat_3)
  then show ?thesis by (subst str_nat.simps) simp
qed

lemma list_all_replicate: "P c \<Longrightarrow> list_all P (replicate k c)"
  by (induction k) simp_all

lemma zero_pad_4: "n < 10000 \<Longrightarrow> length (zero_pad 4 n) = 4 \<and> list_all is_digit (zero_pad 4 n)"
proof -
  assume "n < 10000"
  then have len: "length (str_nat n) \<le> 4"
    by (rule length_str_nat_4)
  have zero: "is_digit (CHR ''0'')"
    by (simp add: is_digit_def)
  from len have "length (zero_pad 4 n) = 4"
    by (simp add: zero_pad_def)
  moreover have "list_all is_digit (zero_pad 4 n)"
    using zero by (simp add: zero_pad_def list_all_replicate str_nat_digits)
  ultimately show ?thesis ..
qed

lemma not_digit_chars [simp]:
  "\<not> is_digit (CHR ''.'')" "\<not> is_digit (CHR ''-'')"
  by (simp_all add: is_digit_def)

lemma four_decimals_shape:
  assumes "ip \<noteq> []" and "list_all is_digit ip" and "length fp = 4" and "list_all is_digit fp"
  shows "four_decimals ((if neg then ''-'' else []) @ ip @ ''.'' @ fp)"
proof -
  from assms(1) obtain c cs where ip: "ip = c # cs" by (cases ip) auto
  with assms(2) have c: "is_digit c" by simp
  then have "c \<noteq> CHR ''-''" by auto
  have tw: "takeWhile is_digit (ip @ CHR ''.'' # fp) = ip"
    using assms(2) by (simp add: takeWhile_append2 list_all_iff)
  have dw: "dropWhile is_digit (ip @ CHR ''.'' # fp) = CHR ''.'' # fp"
    using assms(2) by (simp add: dropWhile_append2 list_all_iff)
  show ?thesis
  proof (cases neg)
    case True
    then show ?thesis
      using assms tw dw by (simp add: four_decimals_def)
  next
    case False
    then have "(if neg then ''-'' else []) @ ip @ ''.'' @ fp = c # (cs @ CHR ''.'' # fp)"
      by (simp add: ip)
    then show ?thesis
      using assms tw dw \<open>c \<noteq> CHR ''-''\<close> by (simp add: four_decimals_def ip)
  qed
qed

lemma format_4f_finite: "four_decimals (format_4f (Finite neg m e))"
proof -
  define n where "n = (if 0 \<le> e then m * 2 ^ nat e * 10000 else rne (m * 10000) (2 ^ nat (- e)))"
  have eq: "format_4f (Finite neg m e) =
      (if neg then ''-'' else []) @ str_nat (n div 10000) @ ''.'' @ zero_pad 4 (n mod 10000)"
    by (simp add: format_4f_def n_def Let_def)
  have "n mod 10000 < 10000" by simp
  from zero_pad_4 [OF this] show ?thesis
    unfolding eq by (intro four_decimals_shape str_nat_nonempty str_nat_digits) simp_all
qed

lemma digit_not_special: "is_digit c \<Longrightarrow> \<not> csv_special c"
  by (auto simp: is_digit_def csv_special_def)

lemma digits_not_special: "list_all is_digit s \<Longrightarrow> \<not> list_ex csv_special s"
  by (induction s) (simp_all add: digit_not_special)

lemma plain_chars_not_special [simp]:
  "\<not> csv_special (CHR ''.'')" "\<not> csv_special (CHR ''-'')" "\<not> csv_special (CHR ''n'')"
  "\<not> csv_special (CHR ''a'')" "\<not> csv_special (CHR ''i'')" "\<not> csv_special (CHR ''f'')"
  by (simp_all add: csv_special_def)

lemma format_4f_not_special: "\<not> list_ex csv_special (format_4f x)"
proof (cases x)
  case (Finite neg m e)
  define n where "n = (if 0 \<le> e then m * 2 ^ nat e * 10000 else rne (m * 10000) (2 ^ nat (- e)))"
  have eq: "format_4f (Finite neg m e) =
      (if neg then ''-'' else []) @ str_nat (n div 10000) @ ''.'' @ zero_pad 4 (n mod 10000)"
    by (simp add: format_4f_def n_def Let_def)
  have "n mod 10000 < 10000" by simp
  from zero_pad_4 [OF this] have "\<not> list_ex csv_special (zero_pad 4 (n mod 10000))"
    by (simp add: digits_not_special)
  moreover have "\<not> list_ex csv_special (str_nat (n div 10000))"
    by (simp add: digits_not_special str_nat_digits)
  ultimately show ?thesis
    unfolding Finite eq by simp
next
  case (Infinite neg)
  then show ?thesis by (simp add: format_4f_def)
next
  case NaN
  then show ?thesis by (simp add: format_4f_def)
qed

lemma csv_field_format_4f: "csv_field (format_4f x) = format_4f x"
  by (simp add: csv_field_def format_4f_not_special)

lemma format_4f_not_finite:
  "\<not> is_finite x \<Longrightarrow> format_4f x = ''nan'' \<or> format_4f x = ''inf'' \<or> format_4f x = ''-inf''"
  by (cases x) (simp_all add: is_finite_def format_4f_def)

lemma writerow_eight:
  "writerow [a, b, c, d, e, f, g, h] =
     csv_field a @ [CHR 0x09] @ csv_field b @ [CHR 0x09] @ csv_field c @ [CHR 0x09]
       @ csv_field d @ [CHR 0x09] @ csv_field e @ [CHR 0x09] @ csv_field f @ [CHR 0x09]
       @ csv_field g @ [CHR 0x09] @ csv_field h @ [CHR 0x0D, CHR 0x0A]"
  by (simp add: writerow_def)

lemma format_4f_samples:
  "format_4f (Finite False 5981343255101440 (- 43)) = ''680.0000''"
  "format_4f (Finite False 5937362789990400 (- 43)) = ''675.0000''"
  "format_4f (Finite False 6007731534168064 (- 43)) = ''683.0000''"
  "format_4f (Finite False 6034119813234688 (- 43)) = ''686.0000''"
  "format_4f (Finite False 5994537394634752 (- 43)) = ''681.5000''"
  by (simp_all add: format_4f_def rne_def Let_def)
     (simp_all add: str_nat.simps digit_char_def zero_pad_def replicate_numeral)

lemma csv_field_plain:
  "csv_field ''USD'' = ''USD''" "csv_field ''09:30:00'' = ''09:30:00''"
  "csv_field ''2025-04-01 09:30:05'' = ''2025-04-01 09:30:05''"
  by (simp_all add: csv_field_def csv_special_def)

subsection \<open>Appending to the output file\<close>

lemma save_to_csv_new_file:
  assumes "disk w = Missing \<or> disk w = Directory No_file"
  shows "save_to_csv self (Some d) w =
     (None, log INFO (Saved (output_file self))
        (w\<lparr>disk := Directory (Regular (writerow fieldnames @ writerow (formatted_data d)))\<rparr>))"
  using assms
  by (auto simp: save_to_csv_def makedirs_def isfile_def open_append_def Let_def)

lemma save_to_csv_existing_file:
  assumes "disk w = Directory (Regular c)"
  shows "save_to_csv self (Some d) w =
     (None, log INFO (Saved (output_file self))
        (w\<lparr>disk := Directory (Regular (c @ writerow (formatted_data d)))\<rparr>))"
  using assms
  by (simp add: save_to_csv_def makedirs_def isfile_def open_append_def Let_def)

lemma save_to_csv_success:
  assumes "save_to_csv self (Some d) w0 = (None, w1)"
  shows "disk w1 = Directory (Regular
           ((case disk w0 of Directory (Regular c) \<Rightarrow> c | _ \<Rightarrow> writerow fieldnames)
              @ writerow (formatted_data d)))"
proof (cases "disk w0")
  case Missing
  with assms show ?thesis
    by (auto simp: save_to_csv_new_file log_def)
next
  case Not_a_directory
  with assms show ?thesis
    by (simp add: save_to_csv_def makedirs_def)
next
  case (Directory f)
  show ?thesis
  proof (cases f)
    case No_file
    with Directory assms show ?thesis
      by (auto simp: save_to_csv_new_file log_def)
  next
    case Is_directory
    with Directory assms show ?thesis
      by (simp add: save_to_csv_def makedirs_def isfile_def open_append_def)
  next
    case (Regular c)
    with Directory assms show ?thesis
      by (auto simp: save_to_csv_existing_file log_def)
  qed
qed

lemma save_all_existing_file:
  assumes "disk w = Directory (Regular c)"
  shows "fst (save_all self ds w) = None
       \<and> disk (snd (save_all self ds w)) =
           Directory (Regular (c @ concat (map (\<lambda>d. writerow (formatted_data d)) ds)))"
  using assms
proof (induction ds arbitrary: w c)
  case Nil
  then show ?case by simp
next
  case (Cons d ds)
  let ?w' = "log INFO (Saved (output_file self))
        (w\<lparr>disk := Directory (Regular (c @ writerow (formatted_data d)))\<rparr>)"
  have "disk ?w' = Directory (Regular (c @ writerow (formatted_data d)))"
    by (simp add: log_def)
  from Cons.IH [OF this] show ?case
    by (simp add: save_to_csv_existing_file [OF Cons.prems])
qed

lemma header_text:
  "writerow fieldnames =
     ''Currency Name'' @ [CHR 0x09] @ ''Buying Rate'' @ [CHR 0x09] @ ''Cash Buying Rate''
       @ [CHR 0x09] @ ''Selling Rate'' @ [CHR 0x09] @ ''Cash Selling Rate'' @ [CHR 0x09]
       @ ''Middle Rate'' @ [CHR 0x09] @ ''Pub Time'' @ [CHR 0x09] @ ''Timestamp''
       @ [CHR 0x0D, CHR 0x0A]"
proof -
  have "map csv_field fieldnames = fieldnames"
    by (simp add: fieldnames_def csv_field_def csv_special_def)
  then show ?thesis
    by (simp add: writerow_def) (simp add: fieldnames_def)
qed

lemma data_row_text:
  "writerow (formatted_data d) =
     csv_field (currency_name d) @ [CHR 0x09]
       @ format_4f (buying_rate d) @ [CHR 0x09]
       @ format_4f (cash_buying_rate d) @ [CHR 0x09]
       @ format_4f (selling_rate d) @ [CHR 0x09]
       @ format_4f (cash_selling_rate d) @ [CHR 0x09]
       @ format_4f (middle_rate d) @ [CHR 0x09]
       @ csv_field (pub_time d) @ [CHR 0x09]
       @ csv_field (timestamp d) @ [CHR 0x0D, CHR 0x0A]"
  unfolding formatted_data_def writerow_eight csv_field_format_4f ..

lemma fetch_once_found:
  assumes "\<not> (400 \<le> status \<and> status < 600)"
      and "find_tag soup ''table'' table_signature = Some table"
      and "List.find has_usd_cell (drop 1 (find_all table ''tr'')) = Some row"
  shows "fetch_once (Response status soup) now = row_dict (find_all row ''td'') now"
  using assms by (auto simp: fetch_once_def scan_rows_find)

lemma float_of_str_nan: "float_of_str ''nan'' = Inr NaN"
  by (simp add: float_eval)

lemma row_dict_nan_cells: "row_dict nan_cells nine_thirty = Inr nan_rate"
proof -
  have len: "7 \<le> length nan_cells" "1 < length nan_cells" "2 < length nan_cells"
    "3 < length nan_cells" "4 < length nan_cells" "5 < length nan_cells"
    by (simp_all add: nan_cells_def)
  have nums:
    "float_of_str (py_strip (get_text (nan_cells ! 1))) = Inr NaN"
    "float_of_str (py_strip (get_text (nan_cells ! 2))) = Inr (Finite False 4638564679680000 (- 36))"
    "float_of_str (py_strip (get_text (nan_cells ! 3))) = Inr (Finite False 4693540261068800 (- 36))"
    "float_of_str (py_strip (get_text (nan_cells ! 4))) = Inr (Finite False 4714156104089600 (- 36))"
    "float_of_str (py_strip (get_text (nan_cells ! 5))) = Inr (Finite False 4683232339558400 (- 36))"
    by (simp_all add: nan_cells_def td_def strip_samples float_of_str_samples float_of_str_nan)
  have pub: "py_strip (get_text (nan_cells ! 6)) = ''09:30:00''"
    by (simp add: nan_cells_def td_def strip_samples)
  show ?thesis
    using row_dict_complete [OF len(1) rate_cell_number [OF len(2) nums(1)]
        rate_cell_number [OF len(3) nums(2)] rate_cell_number [OF len(4) nums(3)]
        rate_cell_number [OF len(5) nums(4)] rate_cell_number [OF len(6) nums(5)],
        of nine_thirty]
    by (simp add: pub strftime_nine_thirty hundredth_samples hundredth_NaN nan_rate_def
        sample_rate_def)
qed

lemma fetch_once_nan_page: "fetch_once (Response 200 nan_page) nine_thirty = Inr nan_rate"
proof -
  let ?row = "Element ''tr'' [] nan_cells"
  have table: "find_tag nan_page ''table'' table_signature = Some (rate_table [header_row, ?row])"
    by (simp add: nan_page_def find_tag_def descendants_page_of is_tag_def has_attrs_def
        rate_table_def)
  have cells: "find_all ?row ''td'' = nan_cells"
    by (simp add: find_all_def is_tag_def nan_cells_def td_def)
  have "find_all (rate_table [header_row, ?row]) ''tr'' = [header_row, ?row]"
    by (simp add: rate_table_def find_all_def is_tag_def header_row_def nan_cells_def td_def th_def)
  moreover have "has_usd_cell ?row"
    by (simp add: has_usd_cell_def cells) (simp add: nan_cells_def td_def strip_samples)
  ultimately have row: "List.find has_usd_cell
      (drop 1 (find_all (rate_table [header_row, ?row]) ''tr'')) = Some ?row"
    by simp
  have status: "\<not> (400 \<le> (200::nat) \<and> (200::nat) < 600)"
    by simp
  show ?thesis
    using fetch_once_found [OF status table row, of nine_thirty]
    by (simp add: cells row_dict_nan_cells)
qed

section \<open>Properties of the fetcher\<close>

text \<open>
  C1. When the request is answered with a page whose rate table has a row for the currency
  with at least seven cells, and the trimmed text of each of the cells 1 to 5 of the first
  such row is accepted by \<open>float\<close>, then \<open>get_exchange_rates\<close> returns the record whose
  five rate fields are those numbers divided by 100 and whose published time is the trimmed
  text of cell 6.
\<close>

theorem get_exchange_rates_row_values:
  assumes "http env (requests_made w) = Response status soup"
      and "\<not> (400 \<le> status \<and> status < 600)"
      and "find_tag soup ''table'' table_signature = Some table"
      and "List.find has_usd_cell (drop 1 (find_all table ''tr'')) = Some row"
      and "find_all row ''td'' = cells"
      and "7 \<le> length cells"
      and "float_of_str (py_strip (get_text (cells ! 1))) = Inr b"
      and "float_of_str (py_strip (get_text (cells ! 2))) = Inr cb"
      and "float_of_str (py_strip (get_text (cells ! 3))) = Inr s"
      and "float_of_str (py_strip (get_text (cells ! 4))) = Inr cs"
      and "float_of_str (py_strip (get_text (cells ! 5))) = Inr m"
  shows "fst (get_exchange_rates init_parser env w) =
           Some \<lparr> currency_name = ''USD'',
                  buying_rate = hundredth b,
                  cash_buying_rate = hundredth cb,
                  selling_rate = hundredth s,
                  cash_selling_rate = hundredth cs,
                  middle_rate = hundredth m,
                  pub_time = py_strip (get_text (cells ! 6)),
                  timestamp = strftime (clock env (requests_made w)) \<rparr>"
proof -
  let ?now = "clock env (requests_made w)"
  let ?r = "\<lparr> currency_name = ''USD'', buying_rate = hundredth b,
             cash_buying_rate = hundredth cb, selling_rate = hundredth s,
             cash_selling_rate = hundredth cs, middle_rate = hundredth m,
             pub_time = py_strip (get_text (cells ! 6)), timestamp = strftime ?now \<rparr>"
  from assms(6) have len: "1 < length cells" "2 < length cells" "3 < length cells"
    "4 < length cells" "5 < length cells"
    by simp_all
  have "row_dict cells ?now = Inr ?r"
    by (rule row_dict_complete [OF assms(6)
          rate_cell_number [OF len(1) assms(7)] rate_cell_number [OF len(2) assms(8)]
          rate_cell_number [OF len(3) assms(9)] rate_cell_number [OF len(4) assms(10)]
          rate_cell_number [OF len(5) assms(11)]])
  with assms(4,5) have "scan_rows (drop 1 (find_all table ''tr'')) ?now = Inr ?r"
    by (simp add: scan_rows_find)
  with assms(1-3) have "fetch_once (http env (requests_made w)) ?now = Inr ?r"
    by (simp add: fetch_once_def)
  then show ?thesis
    by (simp add: get_exchange_rates_def attempts_from_success)
qed

theorem get_exchange_rates_row_values_witness:
  "fst (get_exchange_rates init_parser (sample_env sample_page) fresh_world) = Some sample_rate"
proof -
  have req: "http (sample_env sample_page) (requests_made fresh_world) = Response 200 sample_page"
    by (simp add: sample_env_def)
  have status: "\<not> (400 \<le> (200::nat) \<and> (200::nat) < 600)"
    by simp
  have row: "List.find has_usd_cell
      (drop 1 (find_all (rate_table [header_row, Element ''tr'' [] [], eur_row,
                                      Element ''tr'' [] usd_cells]) ''tr''))
      = Some (Element ''tr'' [] usd_cells)"
    by (simp add: find_all_tr_rate_table has_usd_cell_rows)
  have len: "7 \<le> length usd_cells"
    by (simp add: usd_cells_def)
  have nums:
    "float_of_str (py_strip (get_text (usd_cells ! 1))) = Inr (Finite False 4672924418048000 (- 36))"
    "float_of_str (py_strip (get_text (usd_cells ! 2))) = Inr (Finite False 4638564679680000 (- 36))"
    "float_of_str (py_strip (get_text (usd_cells ! 3))) = Inr (Finite False 4693540261068800 (- 36))"
    "float_of_str (py_strip (get_text (usd_cells ! 4))) = Inr (Finite False 4714156104089600 (- 36))"
    "float_of_str (py_strip (get_text (usd_cells ! 5))) = Inr (Finite False 4683232339558400 (- 36))"
    by (simp_all add: usd_cells_def td_def strip_samples float_of_str_samples)
  have pub: "py_strip (get_text (usd_cells ! 6)) = ''09:30:00''"
    by (simp add: usd_cells_def td_def strip_samples)
  have now: "strftime (clock (sample_env sample_page) (requests_made fresh_world)) = ''2025-04-01 09:30:05''"
    by (simp add: sample_env_def strftime_nine_thirty)
  show ?thesis
    using get_exchange_rates_row_values [OF req status find_table_sample_page row
        find_all_td_rows(4) len nums]
    by (simp add: pub now hundredth_samples sample_rate_def)
qed

text \<open>
  C2. One attempt on a page with a rate table goes through the \<open>tr\<close> rows of the table
  after the first one, and its result is the record built from the first row that has
  \<open>td\<close> cells and whose first cell, trimmed, reads \<open>USD\<close>; with no such row the attempt
  fails with the exception "USD rate not found in the table", and after such a failure of
  its first attempt \<open>get_exchange_rates\<close> goes on to a second request. The currency code
  is the constant \<open>USD\<close> of the program.
\<close>

theorem fetch_once_first_usd_row:
  assumes "\<not> (400 \<le> status \<and> status < 600)"
      and "find_tag soup ''table'' table_signature = Some table"
  shows "fetch_once (Response status soup) now =
     (case List.find has_usd_cell (drop 1 (find_all table ''tr'')) of
        None \<Rightarrow> Inl (Exception ''USD rate not found in the table'')
      | Some row \<Rightarrow> row_dict (find_all row ''td'') now)
   \<and> (List.find has_usd_cell (drop 1 (find_all table ''tr'')) = None
          \<and> http env (requests_made w) = Response status soup \<longrightarrow>
        requests_made w + 2 \<le> requests_made (snd (get_exchange_rates init_parser env w)))"
proof -
  have once: "fetch_once (Response status soup) t =
     (case List.find has_usd_cell (drop 1 (find_all table ''tr'')) of
        None \<Rightarrow> Inl (Exception ''USD rate not found in the table'')
      | Some row \<Rightarrow> row_dict (find_all row ''td'') t)" for t
    using assms by (auto simp: fetch_once_def scan_rows_find)
  have "requests_made w + 2 \<le> requests_made (snd (get_exchange_rates init_parser env w))"
    if "List.find has_usd_cell (drop 1 (find_all table ''tr'')) = None
          \<and> http env (requests_made w) = Response status soup"
  proof -
    from that once have "outcome env (requests_made w)
        = Inl (Exception ''USD rate not found in the table'')"
      by (simp add: outcome_def)
    then show ?thesis
      by (rule failed_first_attempt_retried)
  qed
  with once show ?thesis
    by blast
qed

theorem fetch_once_first_usd_row_witness:
  "fetch_once (Response 200 sample_page) nine_thirty = Inr sample_rate"
proof -
  have status: "\<not> (400 \<le> (200::nat) \<and> (200::nat) < 600)"
    by simp
  show ?thesis
    using fetch_once_first_usd_row [OF status find_table_sample_page, of nine_thirty,
        THEN conjunct1]
    by (simp add: find_all_tr_rate_table has_usd_cell_rows find_all_td_rows row_dict_usd_cells)
qed

text \<open>
  C10. Rows without any \<open>td\<close> cell are passed over: the search goes on with the rows after
  them, no cell of them is read, and such rows alone end in the ordinary "not found"
  exception, never in an \<open>IndexError\<close>.
\<close>

theorem scan_rows_skips_rows_without_td:
  assumes "\<forall>row \<in> set skipped. find_all row ''td'' = []"
  shows "scan_rows (skipped @ rows) now = scan_rows rows now
       \<and> scan_rows skipped now = Inl (Exception ''USD rate not found in the table'')"
  using assms by (induction skipped) simp_all

theorem scan_rows_skips_rows_without_td_witness:
  "scan_rows ([header_row, Element ''tr'' [] []] @ [Element ''tr'' [] usd_cells]) nine_thirty
     = scan_rows [Element ''tr'' [] usd_cells] nine_thirty
   \<and> scan_rows [header_row, Element ''tr'' [] []] nine_thirty
     = Inl (Exception ''USD rate not found in the table'')"
proof -
  have "\<forall>row \<in> set [header_row, Element ''tr'' [] []]. find_all row ''td'' = []"
    by (simp add: find_all_td_rows)
  then show ?thesis
    by (rule scan_rows_skips_rows_without_td)
qed

text \<open>
  C3. Whatever exception an attempt ends in, it is caught, logged and followed by the next
  attempt after a sleep of 5, up to three attempts: the first attempt that succeeds gives
  the result, with one sleep of 5 after each failed attempt before it; when all three fail
  there are exactly two sleeps, the result is \<open>None\<close>, and the call returns normally.
  A request that raises and a response with a status from 400 to 599 are such failures
  (a missing table, a missing row and a malformed cell are the subject of C4 and C5).
\<close>

theorem get_exchange_rates_retry_policy:
  "(\<forall>r. outcome env (requests_made w) = Inr r \<longrightarrow>
      get_exchange_rates init_parser env w =
        (Some r, w\<lparr>requests_made := requests_made w + 1\<rparr>))
 \<and> (\<forall>e0 r. outcome env (requests_made w) = Inl e0
         \<and> outcome env (requests_made w + 1) = Inr r \<longrightarrow>
      get_exchange_rates init_parser env w =
        (Some r, w\<lparr>requests_made := requests_made w + 2,
                   events := events w @
                     [Log ERROR (Attempt_failed 1 e0), Log INFO (Retrying 5), Sleep 5]\<rparr>))
 \<and> (\<forall>e0 e1 r. outcome env (requests_made w) = Inl e0
         \<and> outcome env (requests_made w + 1) = Inl e1
         \<and> outcome env (requests_made w + 2) = Inr r \<longrightarrow>
      get_exchange_rates init_parser env w =
        (Some r, w\<lparr>requests_made := requests_made w + 3,
                   events := events w @
                     [Log ERROR (Attempt_failed 1 e0), Log INFO (Retrying 5), Sleep 5,
                      Log ERROR (Attempt_failed 2 e1), Log INFO (Retrying 5), Sleep 5]\<rparr>))
 \<and> (\<forall>e0 e1 e2. outcome env (requests_made w) = Inl e0
         \<and> outcome env (requests_made w + 1) = Inl e1
         \<and> outcome env (requests_made w + 2) = Inl e2 \<longrightarrow>
      get_exchange_rates init_parser env w =
        (None, w\<lparr>requests_made := requests_made w + 3,
                 events := events w @
                   [Log ERROR (Attempt_failed 1 e0), Log INFO (Retrying 5), Sleep 5,
                    Log ERROR (Attempt_failed 2 e1), Log INFO (Retrying 5), Sleep 5,
                    Log ERROR (Attempt_failed 3 e2), Log ERROR Max_retries]\<rparr>))
 \<and> fetch_once Request_failed now = Inl RequestException
 \<and> (400 \<le> status \<and> status < 600 \<longrightarrow>
      fetch_once (Response status soup) now = Inl (HTTPError status))"
  by (intro conjI allI impI)
     (simp_all add: first_attempt_succeeds second_attempt_succeeds third_attempt_succeeds
        all_attempts_fail fetch_once_def)

theorem get_exchange_rates_retry_policy_witness:
  "get_exchange_rates init_parser offline_env fresh_world =
     (None, \<lparr>requests_made = 3,
             events = [Log ERROR (Attempt_failed 1 RequestException), Log INFO (Retrying 5), Sleep 5,
                       Log ERROR (Attempt_failed 2 RequestException), Log INFO (Retrying 5), Sleep 5,
                       Log ERROR (Attempt_failed 3 RequestException), Log ERROR Max_retries],
             disk = Missing\<rparr>)"
proof -
  have fails: "outcome offline_env (requests_made fresh_world) = Inl RequestException
      \<and> outcome offline_env (requests_made fresh_world + 1) = Inl RequestException
      \<and> outcome offline_env (requests_made fresh_world + 2) = Inl RequestException"
    by (simp add: outcome_def offline_env_def fetch_once_def)
  have "get_exchange_rates init_parser offline_env fresh_world =
      (None, fresh_world\<lparr>requests_made := requests_made fresh_world + 3,
         events := events fresh_world @
           [Log ERROR (Attempt_failed 1 RequestException), Log INFO (Retrying 5), Sleep 5,
            Log ERROR (Attempt_failed 2 RequestException), Log INFO (Retrying 5), Sleep 5,
            Log ERROR (Attempt_failed 3 RequestException), Log ERROR Max_retries]\<rparr>)"
    using get_exchange_rates_retry_policy [of offline_env fresh_world] fails by blast
  then show ?thesis
    by (simp add: fresh_world_def)
qed

text \<open>
  C4. When each of the three requests is answered with a page that has no rate table, or
  whose rate table has no row for the currency, \<open>get_exchange_rates\<close> returns \<open>None\<close>, and
  among the events it adds there are exactly three per-attempt failure entries and exactly
  one terminal failure entry.
\<close>

theorem get_exchange_rates_missing_table_or_row:
  assumes "\<forall>i<3. \<exists>status soup. http env (requests_made w + i) = Response status soup
             \<and> \<not> (400 \<le> status \<and> status < 600) \<and> lacks_usd_row soup"
  shows "fst (get_exchange_rates init_parser env w) = None
       \<and> length (filter is_attempt_failure
            (drop (length (events w)) (events (snd (get_exchange_rates init_parser env w))))) = 3
       \<and> length (filter is_terminal_failure
            (drop (length (events w)) (events (snd (get_exchange_rates init_parser env w))))) = 1"
proof -
  have "\<exists>e. outcome env (requests_made w + i) = Inl e" if "i < 3" for i
    using assms that unfolding outcome_def by (metis fetch_once_lacking)
  from this [of 0] this [of 1] this [of 2] obtain e0 e1 e2
    where "outcome env (requests_made w) = Inl e0"
      and "outcome env (requests_made w + 1) = Inl e1"
      and "outcome env (requests_made w + 2) = Inl e2"
    by auto
  then show ?thesis
    by (simp add: all_attempts_fail is_attempt_failure_def is_terminal_failure_def)
qed

theorem get_exchange_rates_missing_table_or_row_witness:
  "fst (get_exchange_rates init_parser (sample_env page_without_usd) fresh_world) = None
     \<and> length (filter is_attempt_failure (drop (length (events fresh_world))
          (events (snd (get_exchange_rates init_parser (sample_env page_without_usd) fresh_world))))) = 3
     \<and> length (filter is_terminal_failure (drop (length (events fresh_world))
          (events (snd (get_exchange_rates init_parser (sample_env page_without_usd) fresh_world))))) = 1"
proof -
  have "\<forall>i<3. \<exists>status soup.
      http (sample_env page_without_usd) (requests_made fresh_world + i) = Response status soup
      \<and> \<not> (400 \<le> status \<and> status < 600) \<and> lacks_usd_row soup"
    by (simp add: sample_env_def lacks_usd_row_samples)
  then show ?thesis
    by (rule get_exchange_rates_missing_table_or_row)
qed

text \<open>
  C5. Extraction is all or nothing. A record that \<open>get_exchange_rates\<close> returns was built,
  in one of its three attempts, from the first row for the currency, and that row has at
  least seven cells, each of the five rate fields is the value read from its cell, and the
  published time is the trimmed text of cell 6. When the first row for the currency has
  fewer than seven cells or a rate cell that \<open>float\<close> rejects, the attempt ends in an
  \<open>IndexError\<close> or a \<open>ValueError\<close> and gives no record.
\<close>

theorem extraction_is_atomic:
  "(\<forall>r. fst (get_exchange_rates init_parser env w) = Some r \<longrightarrow>
      (\<exists>k<3. \<exists>status soup table row.
          http env (requests_made w + k) = Response status soup
        \<and> find_tag soup ''table'' table_signature = Some table
        \<and> List.find has_usd_cell (drop 1 (find_all table ''tr'')) = Some row
        \<and> 7 \<le> length (find_all row ''td'')
        \<and> rate_cell (find_all row ''td'') 1 = Inr (buying_rate r)
        \<and> rate_cell (find_all row ''td'') 2 = Inr (cash_buying_rate r)
        \<and> rate_cell (find_all row ''td'') 3 = Inr (selling_rate r)
        \<and> rate_cell (find_all row ''td'') 4 = Inr (cash_selling_rate r)
        \<and> rate_cell (find_all row ''td'') 5 = Inr (middle_rate r)
        \<and> pub_time r = py_strip (get_text (find_all row ''td'' ! 6))))
 \<and> (\<forall>status soup table row now.
        \<not> (400 \<le> status \<and> status < 600)
      \<and> find_tag soup ''table'' table_signature = Some table
      \<and> List.find has_usd_cell (drop 1 (find_all table ''tr'')) = Some row
      \<and> (length (find_all row ''td'') < 7
           \<or> (\<exists>i. 1 \<le> i \<and> i \<le> 5 \<and> (\<exists>e. rate_cell (find_all row ''td'') i = Inl e)))
      \<longrightarrow> fetch_once (Response status soup) now = Inl IndexError
        \<or> fetch_once (Response status soup) now = Inl ValueError)"
proof (intro conjI allI impI)
  fix r
  assume "fst (get_exchange_rates init_parser env w) = Some r"
  then obtain k where k: "k < 3" "outcome env (requests_made w + k) = Inr r"
    using get_exchange_rates_Some by blast
  from k(2) obtain status soup table row
    where "http env (requests_made w + k) = Response status soup"
      and "find_tag soup ''table'' table_signature = Some table"
      and "List.find has_usd_cell (drop 1 (find_all table ''tr'')) = Some row"
      and "row_dict (find_all row ''td'') (clock env (requests_made w + k)) = Inr r"
    unfolding outcome_def using fetch_once_Inr by blast
  with k(1) row_dict_Inr [of "find_all row ''td''" "clock env (requests_made w + k)" r]
  show "\<exists>k<3. \<exists>status soup table row.
          http env (requests_made w + k) = Response status soup
        \<and> find_tag soup ''table'' table_signature = Some table
        \<and> List.find has_usd_cell (drop 1 (find_all table ''tr'')) = Some row
        \<and> 7 \<le> length (find_all row ''td'')
        \<and> rate_cell (find_all row ''td'') 1 = Inr (buying_rate r)
        \<and> rate_cell (find_all row ''td'') 2 = Inr (cash_buying_rate r)
        \<and> rate_cell (find_all row ''td'') 3 = Inr (selling_rate r)
        \<and> rate_cell (find_all row ''td'') 4 = Inr (cash_selling_rate r)
        \<and> rate_cell (find_all row ''td'') 5 = Inr (middle_rate r)
        \<and> pub_time r = py_strip (get_text (find_all row ''td'' ! 6))"
    by blast
next
  fix status :: nat and soup table row now
  assume a: "\<not> (400 \<le> status \<and> status < 600)
      \<and> find_tag soup ''table'' table_signature = Some table
      \<and> List.find has_usd_cell (drop 1 (find_all table ''tr'')) = Some row
      \<and> (length (find_all row ''td'') < 7
           \<or> (\<exists>i. 1 \<le> i \<and> i \<le> 5 \<and> (\<exists>e. rate_cell (find_all row ''td'') i = Inl e)))"
  let ?cells = "find_all row ''td''"
  have eq: "fetch_once (Response status soup) now = row_dict ?cells now"
    using a by (auto simp: fetch_once_def scan_rows_find)
  have "\<exists>e. row_dict ?cells now = Inl e"
  proof (cases "row_dict ?cells now")
    case (Inl e)
    then show ?thesis by blast
  next
    case (Inr r)
    note ok = row_dict_Inr [OF Inr]
    from a consider "length ?cells < 7"
      | i e where "1 \<le> i" "i \<le> 5" "rate_cell ?cells i = Inl e"
      by blast
    then show ?thesis
    proof cases
      case 1
      with ok(1) show ?thesis by simp
    next
      case 2
      from 2(1,2) have "i = 1 \<or> i = 2 \<or> i = 3 \<or> i = 4 \<or> i = 5" by arith
      with 2(3) ok(2-6) show ?thesis by auto
    qed
  qed
  then obtain e where "row_dict ?cells now = Inl e" ..
  with row_dict_error [of ?cells now e] eq
  show "fetch_once (Response status soup) now = Inl IndexError
      \<or> fetch_once (Response status soup) now = Inl ValueError"
    by auto
qed

theorem extraction_is_atomic_witness:
  "fetch_once (Response 200 page_with_bad_row) nine_thirty = Inl IndexError
     \<or> fetch_once (Response 200 page_with_bad_row) nine_thirty = Inl ValueError"
proof -
  let ?row = "Element ''tr'' [] [td ''USD'', td ''n/a'']"
  have table: "find_tag page_with_bad_row ''table'' table_signature
      = Some (rate_table [header_row, ?row])"
    by (simp add: page_with_bad_row_def find_tag_def descendants_page_of is_tag_def
        has_attrs_def rate_table_def)
  have cells: "find_all ?row ''td'' = [td ''USD'', td ''n/a'']"
    by (simp add: find_all_def is_tag_def td_def)
  have "find_all (rate_table [header_row, ?row]) ''tr'' = [header_row, ?row]"
    by (simp add: rate_table_def find_all_def is_tag_def header_row_def td_def th_def)
  moreover have "has_usd_cell ?row"
    by (simp add: has_usd_cell_def cells) (simp add: td_def py_strip_def py_isspace_def)
  ultimately have row: "List.find has_usd_cell
      (drop 1 (find_all (rate_table [header_row, ?row]) ''tr'')) = Some ?row"
    by simp
  have short: "length (find_all ?row ''td'') < 7"
    by (simp add: cells)
  have status: "\<not> (400 \<le> (200::nat) \<and> (200::nat) < 600)"
    by simp
  from extraction_is_atomic [of offline_env fresh_world] status table row short
  show ?thesis
    by blast
qed

text \<open>
  C6. A rate cell whose trimmed text is empty is read as the number zero, which divided by
  100 is zero and is written as \<open>0.0000\<close>; it is not a failure of the attempt.
\<close>

theorem empty_rate_cell_is_zero:
  assumes "i < length cells" and "py_strip (get_text (cells ! i)) = []"
  shows "py_float (or_zero (py_strip (get_text (cells ! i)))) = Inr (Finite False 0 (- 1074))
       \<and> rate_cell cells i = Inr (Finite False 0 (- 1074))
       \<and> format_4f (Finite False 0 (- 1074)) = ''0.0000''
       \<and> (\<forall>r. 1 \<le> i \<and> i \<le> 5 \<and> row_dict cells now = Inr r
              \<longrightarrow> format_4f (rate_field i r) = ''0.0000'')"
proof -
  have zero: "py_float (or_zero (py_strip (get_text (cells ! i)))) = Inr (Finite False 0 (- 1074))"
    using assms(2) by (simp add: or_zero_def float_of_int_0)
  have cell: "rate_cell cells i = Inr (Finite False 0 (- 1074))"
    using assms by (rule rate_cell_empty)
  have "format_4f (Finite False 0 (- 1074)) = str_nat 0 @ ''.'' @ zero_pad 4 0"
    by (simp add: format_4f_def rne_def)
  then have fmt: "format_4f (Finite False 0 (- 1074)) = ''0.0000''"
    by (simp add: zero_pad_def str_nat.simps digit_char_def replicate_numeral)
  have "format_4f (rate_field i r) = ''0.0000''"
    if "1 \<le> i \<and> i \<le> 5 \<and> row_dict cells now = Inr r" for r
  proof -
    from that have "i = 1 \<or> i = 2 \<or> i = 3 \<or> i = 4 \<or> i = 5" by arith
    moreover note row_dict_Inr(2-6) [of cells now r]
    ultimately have "rate_cell cells i = Inr (rate_field i r)"
      using that by (auto simp: rate_field_def)
    with cell fmt show ?thesis by simp
  qed
  with zero cell fmt show ?thesis by blast
qed

theorem empty_rate_cell_is_zero_witness:
  "rate_cell blank_cells 1 = Inr (Finite False 0 (- 1074))
     \<and> rate_cell blank_cells 2 = Inr (Finite False 0 (- 1074))
     \<and> format_4f (Finite False 0 (- 1074)) = ''0.0000''"
proof -
  have "1 < length blank_cells" "py_strip (get_text (blank_cells ! 1)) = []"
    by (simp_all add: blank_cells_def td_def strip_samples)
  from empty_rate_cell_is_zero [OF this]
  have one: "rate_cell blank_cells 1 = Inr (Finite False 0 (- 1074))"
    and fmt: "format_4f (Finite False 0 (- 1074)) = ''0.0000''"
    by blast+
  have "2 < length blank_cells" "py_strip (get_text (blank_cells ! 2)) = []"
    by (simp_all add: blank_cells_def py_strip_def)
  from empty_rate_cell_is_zero [OF this]
  have "rate_cell blank_cells 2 = Inr (Finite False 0 (- 1074))"
    by blast
  with one fmt show ?thesis by blast
qed

section \<open>Properties of the run and of the output file\<close>

text \<open>
  C9. When \<open>get_exchange_rates\<close> returns \<open>None\<close>, the run logs "Failed to fetch exchange
  rate data" as its last entry and leaves the data directory and the output file as they
  were; \<open>save_to_csv\<close> is not called, and called with \<open>None\<close> it would return at once
  without touching anything.
\<close>

theorem run_without_rate_writes_nothing:
  assumes "fst (get_exchange_rates self env (log INFO Fetching w)) = None"
  shows "disk (snd (run self env w)) = disk w
       \<and> fst (run self env w) = None
       \<and> events (snd (run self env w)) =
           events (snd (get_exchange_rates self env (log INFO Fetching w))) @ [Log ERROR Fetch_failed]
       \<and> save_to_csv self None w = (None, w)"
proof -
  obtain res w1 where g: "get_exchange_rates self env (log INFO Fetching w) = (res, w1)"
    by (cases "get_exchange_rates self env (log INFO Fetching w)")
  with assms have res: "res = None" by simp
  have "disk (snd (get_exchange_rates self env (log INFO Fetching w))) = disk (log INFO Fetching w)"
    unfolding get_exchange_rates_def by (rule attempts_from_disk)
  with g have d: "disk w1 = disk w" by (simp add: log_def)
  from g res have "run self env w = (None, log ERROR Fetch_failed w1)"
    by (simp add: run_def)
  with g d show ?thesis
    by (simp add: log_def save_to_csv_def)
qed

theorem run_without_rate_writes_nothing_witness:
  "disk (snd (run init_parser offline_env fresh_world)) = disk fresh_world
     \<and> fst (run init_parser offline_env fresh_world) = None
     \<and> events (snd (run init_parser offline_env fresh_world)) =
          events (snd (get_exchange_rates init_parser offline_env (log INFO Fetching fresh_world)))
            @ [Log ERROR Fetch_failed]
     \<and> save_to_csv init_parser None fresh_world = (None, fresh_world)"
proof -
  have "outcome offline_env k = Inl RequestException" for k
    by (simp add: outcome_def offline_env_def fetch_once_def)
  then have "fst (get_exchange_rates init_parser offline_env (log INFO Fetching fresh_world)) = None"
    by (simp add: all_attempts_fail)
  then show ?thesis
    by (rule run_without_rate_writes_nothing)
qed

text \<open>
  C7. Starting with no output file (the data directory missing, or present without the
  file), one or more calls of \<open>save_to_csv\<close> in a row all succeed and leave a file that
  holds the header row once, followed by one data row per call in the order of the calls.
  The header row is the eight column names separated by tabs; a data row is the eight
  fields of its record separated by tabs; each row ends with carriage return and line
  feed. In any call that succeeds, the header is written exactly when the output file was
  not there before the call: the new content is the old content, or the header row when
  there was no file, followed by the data row.
\<close>

theorem header_written_once:
  assumes "disk w = Missing \<or> disk w = Directory No_file" and "ds \<noteq> []"
  shows "fst (save_all self ds w) = None
       \<and> disk (snd (save_all self ds w)) =
           Directory (Regular
             (''Currency Name'' @ [CHR 0x09] @ ''Buying Rate'' @ [CHR 0x09]
                @ ''Cash Buying Rate'' @ [CHR 0x09] @ ''Selling Rate'' @ [CHR 0x09]
                @ ''Cash Selling Rate'' @ [CHR 0x09] @ ''Middle Rate'' @ [CHR 0x09]
                @ ''Pub Time'' @ [CHR 0x09] @ ''Timestamp'' @ [CHR 0x0D, CHR 0x0A]
              @ concat (map (\<lambda>d.
                  csv_field (currency_name d) @ [CHR 0x09]
                    @ format_4f (buying_rate d) @ [CHR 0x09]
                    @ format_4f (cash_buying_rate d) @ [CHR 0x09]
                    @ format_4f (selling_rate d) @ [CHR 0x09]
                    @ format_4f (cash_selling_rate d) @ [CHR 0x09]
                    @ format_4f (middle_rate d) @ [CHR 0x09]
                    @ csv_field (pub_time d) @ [CHR 0x09]
                    @ csv_field (timestamp d) @ [CHR 0x0D, CHR 0x0A]) ds)))
       \<and> (\<forall>d w0 w1. save_to_csv self (Some d) w0 = (None, w1) \<longrightarrow>
             disk w1 = Directory (Regular
               ((case disk w0 of
                   Directory (Regular c) \<Rightarrow> c
                 | _ \<Rightarrow> ''Currency Name'' @ [CHR 0x09] @ ''Buying Rate'' @ [CHR 0x09]
                         @ ''Cash Buying Rate'' @ [CHR 0x09] @ ''Selling Rate'' @ [CHR 0x09]
                         @ ''Cash Selling Rate'' @ [CHR 0x09] @ ''Middle Rate'' @ [CHR 0x09]
                         @ ''Pub Time'' @ [CHR 0x09] @ ''Timestamp'' @ [CHR 0x0D, CHR 0x0A])
                @ csv_field (currency_name d) @ [CHR 0x09]
                @ format_4f (buying_rate d) @ [CHR 0x09]
                @ format_4f (cash_buying_rate d) @ [CHR 0x09]
                @ format_4f (selling_rate d) @ [CHR 0x09]
                @ format_4f (cash_selling_rate d) @ [CHR 0x09]
                @ format_4f (middle_rate d) @ [CHR 0x09]
                @ csv_field (pub_time d) @ [CHR 0x09]
                @ csv_field (timestamp d) @ [CHR 0x0D, CHR 0x0A])))"
proof -
  from assms(2) obtain d rest where ds: "ds = d # rest"
    by (cases ds) auto
  let ?w' = "log INFO (Saved (output_file self))
        (w\<lparr>disk := Directory (Regular (writerow fieldnames @ writerow (formatted_data d)))\<rparr>)"
  have "disk ?w' = Directory (Regular (writerow fieldnames @ writerow (formatted_data d)))"
    by (simp add: log_def)
  from save_all_existing_file [OF this, of self rest]
  have "fst (save_all self ds w) = None
       \<and> disk (snd (save_all self ds w)) =
           Directory (Regular (writerow fieldnames
                                 @ concat (map (\<lambda>d. writerow (formatted_data d)) ds)))"
    by (simp add: ds save_to_csv_new_file [OF assms(1)])
  then have "fst (save_all self ds w) = None
       \<and> disk (snd (save_all self ds w)) =
           Directory (Regular (writerow fieldnames
                                 @ concat (map (\<lambda>d. writerow (formatted_data d)) ds)))
       \<and> (\<forall>d w0 w1. save_to_csv self (Some d) w0 = (None, w1) \<longrightarrow>
             disk w1 = Directory (Regular
               ((case disk w0 of Directory (Regular c) \<Rightarrow> c | _ \<Rightarrow> writerow fieldnames)
                  @ writerow (formatted_data d))))"
    using save_to_csv_success by blast
  then show ?thesis
    unfolding header_text data_row_text append_assoc by (elim conjE) (intro conjI)
qed

theorem header_written_once_witness:
  "fst (save_all init_parser [sample_rate, quoted_rate] fresh_world) = None
     \<and> disk (snd (save_all init_parser [sample_rate, quoted_rate] fresh_world)) =
         Directory (Regular
           (''Currency Name'' @ [CHR 0x09] @ ''Buying Rate'' @ [CHR 0x09]
              @ ''Cash Buying Rate'' @ [CHR 0x09] @ ''Selling Rate'' @ [CHR 0x09]
              @ ''Cash Selling Rate'' @ [CHR 0x09] @ ''Middle Rate'' @ [CHR 0x09]
              @ ''Pub Time'' @ [CHR 0x09] @ ''Timestamp'' @ [CHR 0x0D, CHR 0x0A]
            @ ''USD'' @ [CHR 0x09] @ ''680.0000'' @ [CHR 0x09] @ ''675.0000'' @ [CHR 0x09]
              @ ''683.0000'' @ [CHR 0x09] @ ''686.0000'' @ [CHR 0x09] @ ''681.5000''
              @ [CHR 0x09] @ ''09:30:00'' @ [CHR 0x09] @ ''2025-04-01 09:30:05''
              @ [CHR 0x0D, CHR 0x0A]
            @ ''USD'' @ [CHR 0x09] @ ''680.0000'' @ [CHR 0x09] @ ''675.0000'' @ [CHR 0x09]
              @ ''683.0000'' @ [CHR 0x09] @ ''686.0000'' @ [CHR 0x09] @ ''681.5000''
              @ [CHR 0x09]
              @ [CHR 0x22] @ ''09:30'' @ [CHR 0x09, CHR 0x22, CHR 0x22] @ ''am''
              @ [CHR 0x22, CHR 0x22, CHR 0x22]
              @ [CHR 0x09] @ ''2025-04-01 09:30:05'' @ [CHR 0x0D, CHR 0x0A]))
     \<and> disk (snd (save_to_csv init_parser (Some sample_rate)
                     (fresh_world\<lparr>disk := Directory (Regular ''earlier'')\<rparr>))) =
         Directory (Regular
           (''earlier''
            @ ''USD'' @ [CHR 0x09] @ ''680.0000'' @ [CHR 0x09] @ ''675.0000'' @ [CHR 0x09]
              @ ''683.0000'' @ [CHR 0x09] @ ''686.0000'' @ [CHR 0x09] @ ''681.5000''
              @ [CHR 0x09] @ ''09:30:00'' @ [CHR 0x09] @ ''2025-04-01 09:30:05''
              @ [CHR 0x0D, CHR 0x0A]))"
proof -
  let ?old = "fresh_world\<lparr>disk := Directory (Regular ''earlier'')\<rparr>"
  have start: "disk fresh_world = Missing \<or> disk fresh_world = Directory No_file"
    by (simp add: fresh_world_def)
  have some: "[sample_rate, quoted_rate] \<noteq> []"
    by simp
  note all = header_written_once [OF start some, of init_parser]
  have fields:
    "currency_name sample_rate = ''USD''" "currency_name quoted_rate = ''USD''"
    "format_4f (buying_rate sample_rate) = ''680.0000''"
    "format_4f (buying_rate quoted_rate) = ''680.0000''"
    "format_4f (cash_buying_rate sample_rate) = ''675.0000''"
    "format_4f (cash_buying_rate quoted_rate) = ''675.0000''"
    "format_4f (selling_rate sample_rate) = ''683.0000''"
    "format_4f (selling_rate quoted_rate) = ''683.0000''"
    "format_4f (cash_selling_rate sample_rate) = ''686.0000''"
    "format_4f (cash_selling_rate quoted_rate) = ''686.0000''"
    "format_4f (middle_rate sample_rate) = ''681.5000''"
    "format_4f (middle_rate quoted_rate) = ''681.5000''"
    "pub_time sample_rate = ''09:30:00''"
    "timestamp sample_rate = ''2025-04-01 09:30:05''"
    "timestamp quoted_rate = ''2025-04-01 09:30:05''"
    by (simp_all add: quoted_rate_def sample_rate_def format_4f_samples)
  have quoted: "csv_field (pub_time quoted_rate) =
      [CHR 0x22] @ ''09:30'' @ [CHR 0x09, CHR 0x22, CHR 0x22] @ ''am''
        @ [CHR 0x22, CHR 0x22, CHR 0x22]"
    by (simp add: quoted_rate_def sample_rate_def csv_field_def csv_special_def)
  have "save_to_csv init_parser (Some sample_rate) ?old =
      (None, snd (save_to_csv init_parser (Some sample_rate) ?old))"
    by (simp add: save_to_csv_existing_file [of ?old "''earlier''"])
  with all have "disk (snd (save_to_csv init_parser (Some sample_rate) ?old)) =
      Directory (Regular
        ((case disk ?old of
            Directory (Regular c) \<Rightarrow> c
          | _ \<Rightarrow> ''Currency Name'' @ [CHR 0x09] @ ''Buying Rate'' @ [CHR 0x09]
                  @ ''Cash Buying Rate'' @ [CHR 0x09] @ ''Selling Rate'' @ [CHR 0x09]
                  @ ''Cash Selling Rate'' @ [CHR 0x09] @ ''Middle Rate'' @ [CHR 0x09]
                  @ ''Pub Time'' @ [CHR 0x09] @ ''Timestamp'' @ [CHR 0x0D, CHR 0x0A])
         @ csv_field (currency_name sample_rate) @ [CHR 0x09]
         @ format_4f (buying_rate sample_rate) @ [CHR 0x09]
         @ format_4f (cash_buying_rate sample_rate) @ [CHR 0x09]
         @ format_4f (selling_rate sample_rate) @ [CHR 0x09]
         @ format_4f (cash_selling_rate sample_rate) @ [CHR 0x09]
         @ format_4f (middle_rate sample_rate) @ [CHR 0x09]
         @ csv_field (pub_time sample_rate) @ [CHR 0x09]
         @ csv_field (timestamp sample_rate) @ [CHR 0x0D, CHR 0x0A]))"
    by blast
  then have third: "disk (snd (save_to_csv init_parser (Some sample_rate) ?old)) =
         Directory (Regular
           (''earlier''
            @ ''USD'' @ [CHR 0x09] @ ''680.0000'' @ [CHR 0x09] @ ''675.0000'' @ [CHR 0x09]
              @ ''683.0000'' @ [CHR 0x09] @ ''686.0000'' @ [CHR 0x09] @ ''681.5000''
              @ [CHR 0x09] @ ''09:30:00'' @ [CHR 0x09] @ ''2025-04-01 09:30:05''
              @ [CHR 0x0D, CHR 0x0A]))"
    by (simp add: fields csv_field_plain)
  from all [THEN conjunct2, THEN conjunct1]
  have second: "disk (snd (save_all init_parser [sample_rate, quoted_rate] fresh_world)) =
         Directory (Regular
           (''Currency Name'' @ [CHR 0x09] @ ''Buying Rate'' @ [CHR 0x09]
              @ ''Cash Buying Rate'' @ [CHR 0x09] @ ''Selling Rate'' @ [CHR 0x09]
              @ ''Cash Selling Rate'' @ [CHR 0x09] @ ''Middle Rate'' @ [CHR 0x09]
              @ ''Pub Time'' @ [CHR 0x09] @ ''Timestamp'' @ [CHR 0x0D, CHR 0x0A]
            @ ''USD'' @ [CHR 0x09] @ ''680.0000'' @ [CHR 0x09] @ ''675.0000'' @ [CHR 0x09]
              @ ''683.0000'' @ [CHR 0x09] @ ''686.0000'' @ [CHR 0x09] @ ''681.5000''
              @ [CHR 0x09] @ ''09:30:00'' @ [CHR 0x09] @ ''2025-04-01 09:30:05''
              @ [CHR 0x0D, CHR 0x0A]
            @ ''USD'' @ [CHR 0x09] @ ''680.0000'' @ [CHR 0x09] @ ''675.0000'' @ [CHR 0x09]
              @ ''683.0000'' @ [CHR 0x09] @ ''686.0000'' @ [CHR 0x09] @ ''681.5000''
              @ [CHR 0x09]
              @ [CHR 0x22] @ ''09:30'' @ [CHR 0x09, CHR 0x22, CHR 0x22] @ ''am''
              @ [CHR 0x22, CHR 0x22, CHR 0x22]
              @ [CHR 0x09] @ ''2025-04-01 09:30:05'' @ [CHR 0x0D, CHR 0x0A]))"
    by (simp add: fields quoted csv_field_plain)
  from all [THEN conjunct1] second third show ?thesis
    by (intro conjI)
qed

text \<open>
  C8 (as amended). Each data row holds the eight fields in the order of the header,
  Currency Name, Buying Rate, Cash Buying Rate, Selling Rate, Cash Selling Rate, Middle
  Rate, Pub Time, Timestamp, separated by tabs, and every rate that is a finite number is
  written as a fixed-point decimal with exactly four digits after the point.
\<close>

theorem data_row_layout:
  "writerow (formatted_data d) =
     csv_field (currency_name d) @ [CHR 0x09]
       @ format_4f (buying_rate d) @ [CHR 0x09]
       @ format_4f (cash_buying_rate d) @ [CHR 0x09]
       @ format_4f (selling_rate d) @ [CHR 0x09]
       @ format_4f (cash_selling_rate d) @ [CHR 0x09]
       @ format_4f (middle_rate d) @ [CHR 0x09]
       @ csv_field (pub_time d) @ [CHR 0x09]
       @ csv_field (timestamp d) @ [CHR 0x0D, CHR 0x0A]
 \<and> writerow fieldnames =
     ''Currency Name'' @ [CHR 0x09] @ ''Buying Rate'' @ [CHR 0x09] @ ''Cash Buying Rate''
       @ [CHR 0x09] @ ''Selling Rate'' @ [CHR 0x09] @ ''Cash Selling Rate'' @ [CHR 0x09]
       @ ''Middle Rate'' @ [CHR 0x09] @ ''Pub Time'' @ [CHR 0x09] @ ''Timestamp''
       @ [CHR 0x0D, CHR 0x0A]
 \<and> (\<forall>x \<in> set [buying_rate d, cash_buying_rate d, selling_rate d, cash_selling_rate d,
                 middle_rate d].
        is_finite x \<longrightarrow> four_decimals (format_4f x))"
proof -
  have "four_decimals (format_4f x)" if "is_finite x" for x
    using that by (cases x) (simp_all add: is_finite_def format_4f_finite)
  moreover have "writerow (formatted_data d) =
     csv_field (currency_name d) @ [CHR 0x09]
       @ format_4f (buying_rate d) @ [CHR 0x09]
       @ format_4f (cash_buying_rate d) @ [CHR 0x09]
       @ format_4f (selling_rate d) @ [CHR 0x09]
       @ format_4f (cash_selling_rate d) @ [CHR 0x09]
       @ format_4f (middle_rate d) @ [CHR 0x09]
       @ csv_field (pub_time d) @ [CHR 0x09]
       @ csv_field (timestamp d) @ [CHR 0x0D, CHR 0x0A]"
    unfolding formatted_data_def writerow_eight csv_field_format_4f ..
  ultimately show ?thesis
    using header_text by blast
qed

theorem data_row_layout_witness:
  "writerow (formatted_data sample_rate) =
     ''USD'' @ [CHR 0x09] @ ''680.0000'' @ [CHR 0x09] @ ''675.0000'' @ [CHR 0x09]
       @ ''683.0000'' @ [CHR 0x09] @ ''686.0000'' @ [CHR 0x09] @ ''681.5000'' @ [CHR 0x09]
       @ ''09:30:00'' @ [CHR 0x09] @ ''2025-04-01 09:30:05'' @ [CHR 0x0D, CHR 0x0A]
   \<and> four_decimals ''680.0000'' \<and> four_decimals ''681.5000''"
proof -
  note layout = data_row_layout [of sample_rate]
  have fin: "is_finite (buying_rate sample_rate)" "is_finite (middle_rate sample_rate)"
    by (simp_all add: sample_rate_def is_finite_def)
  from layout fin have "four_decimals (format_4f (buying_rate sample_rate))"
    and "four_decimals (format_4f (middle_rate sample_rate))"
    by simp_all
  then have "four_decimals ''680.0000''" and "four_decimals ''681.5000''"
    by (simp_all add: sample_rate_def format_4f_samples)
  moreover from layout have "writerow (formatted_data sample_rate) =
     ''USD'' @ [CHR 0x09] @ ''680.0000'' @ [CHR 0x09] @ ''675.0000'' @ [CHR 0x09]
       @ ''683.0000'' @ [CHR 0x09] @ ''686.0000'' @ [CHR 0x09] @ ''681.5000'' @ [CHR 0x09]
       @ ''09:30:00'' @ [CHR 0x09] @ ''2025-04-01 09:30:05'' @ [CHR 0x0D, CHR 0x0A]"
    by (simp add: sample_rate_def format_4f_samples csv_field_plain)
  ultimately show ?thesis by blast
qed

text \<open>
  The claim as first stated, for every rate, fails: a page whose row for the currency reads
  \<open>nan\<close> in the buying-rate cell gives a record whose buying rate is not a number, and the
  data row written for it holds \<open>nan\<close> in that field.
\<close>

theorem data_row_layout_counterexample:
  "fst (get_exchange_rates init_parser (sample_env nan_page) fresh_world) = Some nan_rate
   \<and> writerow (formatted_data nan_rate) =
       ''USD'' @ [CHR 0x09] @ ''nan'' @ [CHR 0x09] @ ''675.0000'' @ [CHR 0x09]
         @ ''683.0000'' @ [CHR 0x09] @ ''686.0000'' @ [CHR 0x09] @ ''681.5000'' @ [CHR 0x09]
         @ ''09:30:00'' @ [CHR 0x09] @ ''2025-04-01 09:30:05'' @ [CHR 0x0D, CHR 0x0A]
   \<and> \<not> four_decimals (format_4f (buying_rate nan_rate))"
proof -
  have "outcome (sample_env nan_page) (requests_made fresh_world) = Inr nan_rate"
    by (simp add: outcome_def sample_env_def fetch_once_nan_page)
  then have "fst (get_exchange_rates init_parser (sample_env nan_page) fresh_world) = Some nan_rate"
    by (simp add: first_attempt_succeeds)
  moreover have "format_4f NaN = ''nan''"
    by (simp add: format_4f_def)
  then have "writerow (formatted_data nan_rate) =
       ''USD'' @ [CHR 0x09] @ ''nan'' @ [CHR 0x09] @ ''675.0000'' @ [CHR 0x09]
         @ ''683.0000'' @ [CHR 0x09] @ ''686.0000'' @ [CHR 0x09] @ ''681.5000'' @ [CHR 0x09]
         @ ''09:30:00'' @ [CHR 0x09] @ ''2025-04-01 09:30:05'' @ [CHR 0x0D, CHR 0x0A]"
    unfolding formatted_data_def writerow_eight csv_field_format_4f
    by (simp add: nan_rate_def sample_rate_def format_4f_samples csv_field_plain)
  moreover have "\<not> four_decimals (format_4f (buying_rate nan_rate))"
    by (simp add: nan_rate_def format_4f_def four_decimals_def is_digit_def)
  ultimately show ?thesis by blast
qed

end
